theory Spec2Isabelle
  imports Main "HOL-Library.AList" "HOL-Library.Multiset"
begin

section \<open>The title game server: rooms, hands and the turn barrier\<close>

text \<open>
  A shallow embedding of \<^verbatim>\<open>src/index.js\<close>. The server keeps one process-wide
  object \<^verbatim>\<open>rooms\<close> and, through the transport, the map of live sockets. Each
  event handler runs to completion or throws, so a handler is a function from the server
  state and the event's payload to an outcome: the new state and the list of messages it
  emitted, in the order of emission, and whether it returned or threw.

  Modelling decisions:
  \<^item> player names, room ids, socket ids, titles and cards are strings, compared by
    content (\<^verbatim>\<open>===\<close> on JavaScript strings);
  \<^item> \<^verbatim>\<open>rooms\<close>, \<^verbatim>\<open>room.votes\<close> and \<^verbatim>\<open>room.hands\<close> are plain objects
    used as dictionaries. The model keeps their own properties (a map, and for the hands
    an association list, so that the cards of a room can be summed) and reads them the
    way JavaScript does: a key that is not an own property is looked up in the prototype
    chain, which ends in \<^verbatim>\<open>Object.prototype\<close>; an assignment to
    \<^verbatim>\<open>__proto__\<close> calls the setter of \<^verbatim>\<open>Object.prototype\<close>, which replaces the
    prototype when the value is an object and does nothing otherwise; \<^verbatim>\<open>delete\<close>
    removes an own property only;
  \<^item> a \<^verbatim>\<open>TypeError\<close> (a property read on \<^verbatim>\<open>undefined\<close>, a call of something
    that is no function) is caught nowhere in the source: the outcome \<open>Threw\<close> holds the
    state and the messages at the throw;
  \<^item> the built-ins are those of ECMAScript 2023, and the transport is socket.io 4:
    \<^verbatim>\<open>io.sockets.sockets\<close> is a map in insertion order, and \<^verbatim>\<open>socket.data\<close> of
    a socket that has not joined is an empty object;
  \<^item> \<^verbatim>\<open>room.turn\<close> and the vote counters are natural numbers (the JavaScript
    numbers stay far below \<open>2^53\<close>); a tally that string concatenation has turned into
    text is \<open>Text\<close>, its characters (the engine's rendering of a built-in function)
    are not modelled;
  \<^item> \<^verbatim>\<open>usedCards\<close> arrives from the client and may be anything: the model
    distinguishes an array of cards from every other value;
  \<^item> \<^verbatim>\<open>_turnProcessed\<close> is absent from a fresh room: \<open>None\<close>;
  \<^item> the shuffle of \<^verbatim>\<open>createNewRoom\<close> is random: its result is an argument;
  \<^item> \<^verbatim>\<open>console.log\<close> and \<^verbatim>\<open>console.warn\<close> are not modelled;
  \<^item> \<^verbatim>\<open>socket.emit\<close> and \<^verbatim>\<open>io.to(socket.id).emit\<close> both address one
    connection (\<open>ToSocket\<close>); \<^verbatim>\<open>io.to(roomId).emit\<close> addresses a room
    (\<open>ToRoom\<close>); who has joined the transport's room (\<^verbatim>\<open>socket.join\<close>) is
    not modelled, a message is recorded with its addressee.
\<close>

subsection \<open>Plain objects as dictionaries\<close>

text \<open>
  The string-keyed properties of \<^verbatim>\<open>Object.prototype\<close>: eleven functions and the
  accessor \<^verbatim>\<open>__proto__\<close>. Every plain object inherits them, and each reads as a
  truthy value that is no array.
\<close>

definition objectPrototypeKeys :: "string list" where
  "objectPrototypeKeys =
     [''constructor'', ''__defineGetter__'', ''__defineSetter__'', ''hasOwnProperty'',
      ''__lookupGetter__'', ''__lookupSetter__'', ''isPrototypeOf'', ''propertyIsEnumerable'',
      ''toString'', ''valueOf'', ''__proto__'', ''toLocaleString'']"

text \<open>
  The string-keyed properties of \<^verbatim>\<open>Array.prototype\<close> (ECMAScript 2023) other than
  \<^verbatim>\<open>length\<close>: an object whose prototype is an array inherits them too.
\<close>

definition arrayPrototypeKeys :: "string list" where
  "arrayPrototypeKeys =
     [''at'', ''concat'', ''constructor'', ''copyWithin'', ''entries'', ''every'', ''fill'',
      ''filter'', ''find'', ''findIndex'', ''findLast'', ''findLastIndex'', ''flat'',
      ''flatMap'', ''forEach'', ''includes'', ''indexOf'', ''join'', ''keys'', ''lastIndexOf'',
      ''map'', ''pop'', ''push'', ''reduce'', ''reduceRight'', ''reverse'', ''shift'', ''slice'',
      ''some'', ''sort'', ''splice'', ''toLocaleString'', ''toReversed'', ''toSorted'',
      ''toSpliced'', ''toString'', ''unshift'', ''values'', ''with'']"

text \<open>
  What a read \<^verbatim>\<open>obj[key]\<close> finds in an object whose prototype is
  \<^verbatim>\<open>Object.prototype\<close>: nothing, an inherited built-in, or an own property.
\<close>

datatype 'a property = Absent | Inherited | Own 'a

definition getProperty :: "(string \<rightharpoonup> 'a) \<Rightarrow> string \<Rightarrow> 'a property" where
  "getProperty obj k =
     (case obj k of
        Some v \<Rightarrow> Own v
      | None \<Rightarrow> if k \<in> set objectPrototypeKeys then Inherited else Absent)"

text \<open>
  An array index as a property key: the decimal numeral of a number below the length,
  without leading zeros.
\<close>

definition digitValue :: "char \<Rightarrow> nat option" where
  "digitValue c =
     map_of [(CHR ''0'', 0), (CHR ''1'', 1), (CHR ''2'', 2), (CHR ''3'', 3), (CHR ''4'', 4),
             (CHR ''5'', 5), (CHR ''6'', 6), (CHR ''7'', 7), (CHR ''8'', 8), (CHR ''9'', 9)] c"

fun readDecimal :: "nat \<Rightarrow> string \<Rightarrow> nat option" where
  "readDecimal acc [] = Some acc"
| "readDecimal acc (c # cs) =
     (case digitValue c of None \<Rightarrow> None | Some d \<Rightarrow> readDecimal (10 * acc + d) cs)"

definition arrayIndex :: "string \<Rightarrow> nat \<Rightarrow> nat option" where
  "arrayIndex k n =
     (case k of
        [] \<Rightarrow> None
      | c # cs \<Rightarrow>
          if c = CHR ''0'' \<and> cs \<noteq> [] then None
          else (case readDecimal 0 k of
                  None \<Rightarrow> None
                | Some i \<Rightarrow> if i < n then Some i else None))"

text \<open>\<^verbatim>\<open>str.includes(c)\<close> on strings: \<open>c\<close> occurs in \<open>str\<close> as a substring.\<close>

fun isSubstring :: "string \<Rightarrow> string \<Rightarrow> bool" where
  "isSubstring c [] = (c = [])"
| "isSubstring c (x # xs) = (take (length c) (x # xs) = c \<or> isSubstring c xs)"

subsection \<open>Data\<close>

type_synonym card = string

datatype usedCards = NotArray | CardArray "card list"

record submission =
  sub_playerName :: string
  sub_title :: string
  sub_turn :: nat
  sub_votes :: nat
  sub_usedCards :: usedCards

text \<open>
  A value of \<^verbatim>\<open>room.votes\<close>: a number, or the text that \<^verbatim>\<open>+ 1\<close> makes of an
  inherited built-in.
\<close>

datatype tally = Count nat | Text

text \<open>
  The own properties of \<^verbatim>\<open>room.hands\<close> are \<open>hands\<close>; \<open>handsProto\<close> is the array
  that an assignment to \<^verbatim>\<open>room.hands['__proto__']\<close> has made the prototype of
  \<^verbatim>\<open>room.hands\<close>, \<open>None\<close> while the prototype is \<^verbatim>\<open>Object.prototype\<close>.
\<close>

record room =
  players :: "string list"
  votes :: "string \<rightharpoonup> tally"
  votedPlayers :: "string list"
  readyPlayers :: "string list"
  turn :: nat
  submissions :: "submission list"
  deck :: "card list"
  hands :: "(string \<times> card list) list"
  handsProto :: "card list option"
  turnProcessed :: "nat option"

text \<open>
  A socket of \<^verbatim>\<open>io.sockets.sockets\<close>, in insertion order, with its
  \<^verbatim>\<open>socket.data\<close>: \<open>None\<close> until the socket joins a room, then the pair
  \<open>(roomId, playerName)\<close>.
\<close>

record server =
  rooms :: "string \<rightharpoonup> room"
  sockets :: "(string \<times> (string \<times> string) option) list"

text \<open>
  What a read \<^verbatim>\<open>room.hands[key]\<close> yields, and so what a deal-hand message can
  carry: \<^verbatim>\<open>undefined\<close>, an array of cards, a string (an element of the prototype
  array), a number (its length), or a built-in (a function or \<^verbatim>\<open>Object.prototype\<close>
  itself: truthy, and without the methods of an array).
\<close>

datatype jsval = Undefined | Cards "card list" | Str string | Num nat | Builtin

fun truthy :: "jsval \<Rightarrow> bool" where
  "truthy Undefined = False"
| "truthy (Cards h) = True"
| "truthy (Str str) = (str \<noteq> [])"
| "truthy (Num n) = (n \<noteq> 0)"
| "truthy Builtin = True"

datatype message =
    DealHand jsval
  | PlayersInRoom "string list"
  | TitleSubmitted string string
  | AllVoted
  | PlayerReadyNext string
  | NextTurn nat

datatype emit = ToSocket string message | ToRoom string message

text \<open>
  The outcome of a piece of code: it returned, or it threw a \<^verbatim>\<open>TypeError\<close>; either
  way with the state it left and the messages it had emitted.
\<close>

datatype 'a outcome = Done 'a "emit list" | Threw 'a "emit list"

fun state_of :: "'a outcome \<Rightarrow> 'a" where
  "state_of (Done s out) = s"
| "state_of (Threw s out) = s"

fun emitted :: "'a outcome \<Rightarrow> emit list" where
  "emitted (Done s out) = out"
| "emitted (Threw s out) = out"

fun threw :: "'a outcome \<Rightarrow> bool" where
  "threw (Done s out) = False"
| "threw (Threw s out) = True"

subsection \<open>Reading and writing the hands and the votes\<close>

text \<open>\<^verbatim>\<open>room.hands[k]\<close>, through the prototype chain.\<close>

definition getHand :: "room \<Rightarrow> string \<Rightarrow> jsval" where
  "getHand room k =
     (case map_of (hands room) k of
        Some h \<Rightarrow> Cards h
      | None \<Rightarrow>
          (case handsProto room of
             None \<Rightarrow> if k \<in> set objectPrototypeKeys then Builtin else Undefined
           | Some arr \<Rightarrow>
               if k = ''__proto__'' then Cards arr
               else (case arrayIndex k (length arr) of
                       Some i \<Rightarrow> Str (arr ! i)
                     | None \<Rightarrow>
                         if k = ''length'' then Num (length arr)
                         else if k \<in> set arrayPrototypeKeys \<or> k \<in> set objectPrototypeKeys
                         then Builtin else Undefined)))"

text \<open>
  \<^verbatim>\<open>room.hands[k] = h\<close> with an array \<open>h\<close>: an own property is set or created,
  except that the key \<^verbatim>\<open>__proto__\<close>, when it is no own property, reaches the setter
  and \<open>h\<close> becomes the prototype. \<^verbatim>\<open>room.hands[k].push(c)\<close> right after such an
  assignment extends the same array, own or prototype.
\<close>

definition setHand :: "string \<Rightarrow> card list \<Rightarrow> room \<Rightarrow> room" where
  "setHand k h room =
     (if k = ''__proto__'' \<and> map_of (hands room) k = None
      then room\<lparr>handsProto := Some h\<rparr>
      else room\<lparr>hands := AList.update k h (hands room)\<rparr>)"

text \<open>
  \<^verbatim>\<open>votes[k] = (votes[k] || 0) + 1\<close>: a number is incremented, an absent key starts
  at one, text stays text; an inherited built-in is truthy and \<^verbatim>\<open>+ 1\<close> turns it into
  text, which is stored as an own property, except under \<^verbatim>\<open>__proto__\<close>, whose setter
  ignores a string.
\<close>

definition countUp :: "(string \<rightharpoonup> tally) \<Rightarrow> string \<Rightarrow> (string \<rightharpoonup> tally)" where
  "countUp vs k =
     (case getProperty vs k of
        Own (Count n) \<Rightarrow> vs(k \<mapsto> Count (n + 1))
      | Own Text \<Rightarrow> vs(k \<mapsto> Text)
      | Inherited \<Rightarrow> if k = ''__proto__'' then vs else vs(k \<mapsto> Text)
      | Absent \<Rightarrow> vs(k \<mapsto> Count 1))"

subsection \<open>Rooms and the deck\<close>

definition createNewRoom :: "card list \<Rightarrow> room" where
  "createNewRoom shuffled =
     \<lparr>players = [], votes = Map.empty, votedPlayers = [], readyPlayers = [], turn = 1,
      submissions = [], deck = shuffled, hands = [], handsProto = None,
      turnProcessed = None\<rparr>"

text \<open>
  \<^verbatim>\<open>if (!room) return\<close> lets an inherited built-in through, and
  \<^verbatim>\<open>room.players.filter\<close> throws on it: a built-in has no \<^verbatim>\<open>players\<close>.
\<close>

definition removePlayerFromRoom :: "server \<Rightarrow> string \<Rightarrow> string \<Rightarrow> server outcome" where
  "removePlayerFromRoom s roomId playerName =
     (case getProperty (rooms s) roomId of
        Absent \<Rightarrow> Done s []
      | Inherited \<Rightarrow> Threw s []
      | Own room \<Rightarrow>
          Done (s\<lparr>rooms := (rooms s)(roomId \<mapsto>
             room\<lparr>players := filter (\<lambda>n. n \<noteq> playerName) (players room),
                  votedPlayers := filter (\<lambda>n. n \<noteq> playerName) (votedPlayers room),
                  readyPlayers := filter (\<lambda>n. n \<noteq> playerName) (readyPlayers room),
                  votes := (votes room)(playerName := None),
                  hands := AList.delete playerName (hands room),
                  submissions :=
                    filter (\<lambda>t. sub_playerName t \<noteq> playerName) (submissions room)\<rparr>)\<rparr>) [])"

text \<open>
  \<^verbatim>\<open>deck.splice(0, count)\<close> returns the first \<open>cnt\<close> cards (all of them when
  the deck is shorter, none when \<open>cnt\<close> is negative) and leaves the rest in the deck:
  the result is the pair of the cards drawn and the deck left.
\<close>

definition drawCards :: "card list \<Rightarrow> int \<Rightarrow> card list \<times> card list" where
  "drawCards d cnt = (take (nat cnt) d, drop (nat cnt) d)"

subsection \<open>The handlers\<close>

text \<open>
  join-room creates the room when \<^verbatim>\<open>rooms[roomId]\<close> is falsy, that is absent. After
  \<^verbatim>\<open>removePlayerFromRoom\<close> has returned, the room is an own property.
\<close>

definition join_room ::
  "server \<Rightarrow> string \<Rightarrow> string \<Rightarrow> string \<Rightarrow> card list \<Rightarrow> server outcome" where
  "join_room s sid roomId playerName shuffled =
     (let s1 = (case getProperty (rooms s) roomId of
                  Absent \<Rightarrow> s\<lparr>rooms := (rooms s)(roomId \<mapsto> createNewRoom shuffled)\<rparr>
                | Inherited \<Rightarrow> s
                | Own room \<Rightarrow> s)
      in case removePlayerFromRoom s1 roomId playerName of
           Threw s2 out \<Rightarrow> Threw s2 out
         | Done s2 out \<Rightarrow>
             (case rooms s2 roomId of
                None \<Rightarrow> Done s2 []
              | Some room \<Rightarrow>
                  (let room1 = room\<lparr>players := players room @ [playerName]\<rparr>;
                       (hand, rest) = drawCards (deck room1) 7;
                       room2 = setHand playerName hand (room1\<lparr>deck := rest\<rparr>)
                   in Done (s2\<lparr>rooms := (rooms s2)(roomId \<mapsto> room2),
                              sockets := AList.update sid (Some (roomId, playerName)) (sockets s2)\<rparr>)
                        [ToSocket sid (DealHand (Cards hand)),
                         ToRoom roomId (PlayersInRoom (players room2))])))"

definition validUsedCards :: "usedCards \<Rightarrow> bool" where
  "validUsedCards u = (case u of NotArray \<Rightarrow> False | CardArray cs \<Rightarrow> length cs = 2)"

text \<open>
  With a valid \<^verbatim>\<open>usedCards\<close> and an inherited built-in for the room,
  \<^verbatim>\<open>room.submissions.filter\<close> throws.
\<close>

definition submit_title ::
  "server \<Rightarrow> string \<Rightarrow> string \<Rightarrow> string \<Rightarrow> usedCards \<Rightarrow> server outcome" where
  "submit_title s roomId playerName title used =
     (case getProperty (rooms s) roomId of
        Absent \<Rightarrow> Done s []
      | Inherited \<Rightarrow> if \<not> validUsedCards used then Done s [] else Threw s []
      | Own room \<Rightarrow>
          if \<not> validUsedCards used then Done s []
          else
            (let kept = filter (\<lambda>t. sub_playerName t \<noteq> playerName) (submissions room);
                 room1 = room\<lparr>submissions := kept @
                   [\<lparr>sub_playerName = playerName, sub_title = title, sub_turn = turn room,
                     sub_votes = 0, sub_usedCards = used\<rparr>]\<rparr>
             in Done (s\<lparr>rooms := (rooms s)(roomId \<mapsto> room1)\<rparr>)
                  [ToRoom roomId (TitleSubmitted playerName title)]))"

text \<open>
  \<^verbatim>\<open>room.submissions.find(...)\<close> yields the first submission of the target, whose
  counter is incremented in place.
\<close>

fun countVote :: "string \<Rightarrow> submission list \<Rightarrow> submission list" where
  "countVote targetName [] = []"
| "countVote targetName (t # ts) =
     (if sub_playerName t = targetName then t\<lparr>sub_votes := sub_votes t + 1\<rparr> # ts
      else t # countVote targetName ts)"

definition vote :: "server \<Rightarrow> string \<Rightarrow> string \<Rightarrow> string \<Rightarrow> server outcome" where
  "vote s roomId playerName targetName =
     (case getProperty (rooms s) roomId of
        Absent \<Rightarrow> Done s []
      | Inherited \<Rightarrow> Threw s []
      | Own room \<Rightarrow>
          (let room1 = room\<lparr>votes := countUp (votes room) targetName,
                            votedPlayers := votedPlayers room @ [playerName],
                            submissions := countVote targetName (submissions room)\<rparr>
           in Done (s\<lparr>rooms := (rooms s)(roomId \<mapsto> room1)\<rparr>)
                (if length (votedPlayers room1) = length (players room1)
                 then [ToRoom roomId AllVoted] else [])))"

text \<open>
  discard-card reads the hand through the prototype chain. A built-in and a non-zero
  number are truthy and have no \<^verbatim>\<open>includes\<close>: the call throws. A non-empty string
  has \<^verbatim>\<open>includes\<close> (the substring test) and no \<^verbatim>\<open>filter\<close>: the handler returns
  when the card does not occur in it and throws when it does.
\<close>

definition discard_card ::
  "server \<Rightarrow> string \<Rightarrow> string \<Rightarrow> string \<Rightarrow> card \<Rightarrow> server outcome" where
  "discard_card s sid roomId playerName c =
     (case getProperty (rooms s) roomId of
        Absent \<Rightarrow> Done s []
      | Inherited \<Rightarrow> Threw s []
      | Own room \<Rightarrow>
          (case getHand room playerName of
             Undefined \<Rightarrow> Done s []
           | Builtin \<Rightarrow> Threw s []
           | Num n \<Rightarrow> if n = 0 then Done s [] else Threw s []
           | Str str \<Rightarrow> if str \<noteq> [] \<and> isSubstring c str then Threw s [] else Done s []
           | Cards playerHand \<Rightarrow>
               if c \<notin> set playerHand then Done s []
               else
                 (let kept = filter (\<lambda>x. x \<noteq> c) playerHand;
                      room1 = setHand playerName kept room
                  in case deck room1 of
                       [] \<Rightarrow> Done (s\<lparr>rooms := (rooms s)(roomId \<mapsto> room1)\<rparr>) []
                     | newCard # rest \<Rightarrow>
                         (let room2 = setHand playerName (kept @ [newCard]) (room1\<lparr>deck := rest\<rparr>)
                          in Done (s\<lparr>rooms := (rooms s)(roomId \<mapsto> room2)\<rparr>)
                               [ToSocket sid (DealHand (Cards (kept @ [newCard])))]))))"

definition request_hand :: "server \<Rightarrow> string \<Rightarrow> string \<Rightarrow> string \<Rightarrow> server outcome" where
  "request_hand s sid roomId playerName =
     (case getProperty (rooms s) roomId of
        Absent \<Rightarrow> Done s []
      | Inherited \<Rightarrow> Threw s []
      | Own room \<Rightarrow>
          if truthy (getHand room playerName)
          then Done s [ToSocket sid (DealHand (getHand room playerName))]
          else Done s [])"

text \<open>
  The id of the first live socket bound to the player in the room
  (\<^verbatim>\<open>[...io.sockets.sockets.entries()].find(...)?.[0]\<close>).
\<close>

definition findSocket ::
  "(string \<times> (string \<times> string) option) list \<Rightarrow> string \<Rightarrow> string \<Rightarrow> string option" where
  "findSocket socks roomId playerName =
     map_option fst (find (\<lambda>e. snd e = Some (roomId, playerName)) socks)"

text \<open>
  The loop over \<^verbatim>\<open>room.submissions\<close> that refills the submitters' hands.
  \<^verbatim>\<open>room.hands[playerName] || []\<close> keeps every truthy value, and
  \<^verbatim>\<open>hand.filter\<close> throws on one that is no array.
\<close>

fun replenishHands ::
  "(string \<times> (string \<times> string) option) list \<Rightarrow> string \<Rightarrow> submission list \<Rightarrow> room
     \<Rightarrow> room outcome" where
  "replenishHands socks roomId [] room = Done room []"
| "replenishHands socks roomId (t # ts) room =
     (case (if truthy (getHand room (sub_playerName t)) then getHand room (sub_playerName t)
            else Cards []) of
        Cards hand \<Rightarrow>
          (let used = (case sub_usedCards t of CardArray cs \<Rightarrow> cs | NotArray \<Rightarrow> []);
               newHand = filter (\<lambda>x. x \<notin> set used) hand;
               needed = 7 - int (length newHand);
               (drawn, rest) = drawCards (deck room) needed;
               room1 = setHand (sub_playerName t) (newHand @ drawn) (room\<lparr>deck := rest\<rparr>);
               out = (case findSocket socks roomId (sub_playerName t) of
                        Some socketId \<Rightarrow> [ToSocket socketId (DealHand (Cards (newHand @ drawn)))]
                      | None \<Rightarrow> [])
           in case replenishHands socks roomId ts room1 of
                Done room2 outs \<Rightarrow> Done room2 (out @ outs)
              | Threw room2 outs \<Rightarrow> Threw room2 (out @ outs))
      | _ \<Rightarrow> Threw room [])"

text \<open>The loop over \<^verbatim>\<open>room.players\<close> that sends every hand again.\<close>

definition resendHands ::
  "(string \<times> (string \<times> string) option) list \<Rightarrow> string \<Rightarrow> room \<Rightarrow> emit list" where
  "resendHands socks roomId room =
     concat (map (\<lambda>player. case findSocket socks roomId player of
                     Some socketId \<Rightarrow> [ToSocket socketId (DealHand (getHand room player))]
                   | None \<Rightarrow> [])
                 (players room))"

text \<open>The turn-advancement block (the body of the \<^verbatim>\<open>_turnProcessed\<close> guard).\<close>

definition advanceTurn ::
  "(string \<times> (string \<times> string) option) list \<Rightarrow> string \<Rightarrow> room \<Rightarrow> room outcome" where
  "advanceTurn socks roomId room =
     (let room1 = room\<lparr>turnProcessed := Some (turn room)\<rparr>
      in case replenishHands socks roomId (submissions room1) room1 of
           Threw room2 out1 \<Rightarrow> Threw room2 out1
         | Done room2 out1 \<Rightarrow>
             (let room3 = room2\<lparr>turn := turn room2 + 1, votes := Map.empty, votedPlayers := [],
                               readyPlayers := [], submissions := []\<rparr>
              in Done room3
                   (out1 @ [ToRoom roomId (NextTurn (turn room3))]
                      @ resendHands socks roomId room3)))"

definition ready_for_next_turn :: "server \<Rightarrow> string \<Rightarrow> string \<Rightarrow> server outcome" where
  "ready_for_next_turn s roomId playerName =
     (case getProperty (rooms s) roomId of
        Absent \<Rightarrow> Done s []
      | Inherited \<Rightarrow> Threw s []
      | Own room \<Rightarrow>
          (let (room1, out1) =
                 (if playerName \<notin> set (readyPlayers room)
                  then (room\<lparr>readyPlayers := readyPlayers room @ [playerName]\<rparr>,
                        [ToRoom roomId (PlayerReadyNext playerName)])
                  else (room, []))
           in if length (readyPlayers room1) = length (players room1)
                 \<and> turnProcessed room1 \<noteq> Some (turn room1)
              then (case advanceTurn (sockets s) roomId room1 of
                      Done room2 out2 \<Rightarrow>
                        Done (s\<lparr>rooms := (rooms s)(roomId \<mapsto> room2)\<rparr>) (out1 @ out2)
                    | Threw room2 out2 \<Rightarrow>
                        Threw (s\<lparr>rooms := (rooms s)(roomId \<mapsto> room2)\<rparr>) (out1 @ out2))
              else Done (s\<lparr>rooms := (rooms s)(roomId \<mapsto> room1)\<rparr>) out1))"

text \<open>
  The disconnect handler reads \<^verbatim>\<open>socket.data || {}\<close>; an empty string is falsy, so
  an empty room id or player name skips the removal.
\<close>

definition disconnect :: "server \<Rightarrow> string \<Rightarrow> server outcome" where
  "disconnect s sid =
     (case map_of (sockets s) sid of
        Some (Some (roomId, playerName)) \<Rightarrow>
          if roomId \<noteq> [] \<and> playerName \<noteq> []
          then (case removePlayerFromRoom s roomId playerName of
                  Threw s1 out \<Rightarrow> Threw s1 out
                | Done s1 out \<Rightarrow>
                    Done s1 [ToRoom roomId (PlayersInRoom
                               (case rooms s1 roomId of Some room \<Rightarrow> players room | None \<Rightarrow> []))])
          else Done s []
      | _ \<Rightarrow> Done s [])"

subsection \<open>Events and runs\<close>

text \<open>
  One inbound event per constructor. \<open>Connect\<close> and the removal of the socket at
  \<open>Disconnect\<close> are the transport's part: a new socket enters
  \<^verbatim>\<open>io.sockets.sockets\<close> with empty data and leaves it when it closes.
\<close>

datatype event =
    Connect string
  | JoinRoom string string string "card list"
  | SubmitTitle string string string string usedCards
  | Vote string string string string
  | DiscardCard string string string card
  | RequestHand string string string
  | ReadyForNextTurn string string string
  | Disconnect string

fun step :: "server \<Rightarrow> event \<Rightarrow> server outcome" where
  "step s (Connect sid) = Done (s\<lparr>sockets := AList.update sid None (sockets s)\<rparr>) []"
| "step s (JoinRoom sid roomId playerName shuffled) = join_room s sid roomId playerName shuffled"
| "step s (SubmitTitle sid roomId playerName title used) =
     submit_title s roomId playerName title used"
| "step s (Vote sid roomId playerName targetName) = vote s roomId playerName targetName"
| "step s (DiscardCard sid roomId playerName c) = discard_card s sid roomId playerName c"
| "step s (RequestHand sid roomId playerName) = request_hand s sid roomId playerName"
| "step s (ReadyForNextTurn sid roomId playerName) = ready_for_next_turn s roomId playerName"
| "step s (Disconnect sid) =
     (case disconnect s sid of
        Done s1 out \<Rightarrow> Done (s1\<lparr>sockets := AList.delete sid (sockets s1)\<rparr>) out
      | Threw s1 out \<Rightarrow> Threw (s1\<lparr>sockets := AList.delete sid (sockets s1)\<rparr>) out)"

text \<open>
  A run of events. A handler that throws leaves the state as it is at the throw, and the
  next event meets that state; the outcome of the run is \<open>Threw\<close> when some handler
  threw. What becomes of the uncaught exception is not in the source: where it ends the
  process, what the server did is the run of the events up to the throw, which is a run
  as well.
\<close>

fun run :: "server \<Rightarrow> event list \<Rightarrow> server outcome" where
  "run s [] = Done s []"
| "run s (e # es) =
     (case step s e of
        Done s1 out1 \<Rightarrow>
          (case run s1 es of
             Done s2 out2 \<Rightarrow> Done s2 (out1 @ out2)
           | Threw s2 out2 \<Rightarrow> Threw s2 (out1 @ out2))
      | Threw s1 out1 \<Rightarrow>
          (case run s1 es of
             Done s2 out2 \<Rightarrow> Threw s2 (out1 @ out2)
           | Threw s2 out2 \<Rightarrow> Threw s2 (out1 @ out2)))"

definition init :: server where
  "init = \<lparr>rooms = Map.empty, sockets = []\<rparr>"

text \<open>
  Reading a room of the server: its roster, the hand recorded for a player, its deck, its
  voters.
\<close>

definition roster_of :: "server \<Rightarrow> string \<Rightarrow> string list" where
  "roster_of s roomId = (case rooms s roomId of None \<Rightarrow> [] | Some room \<Rightarrow> players room)"

definition hand_of :: "server \<Rightarrow> string \<Rightarrow> string \<Rightarrow> card list option" where
  "hand_of s roomId playerName =
     (case rooms s roomId of None \<Rightarrow> None | Some room \<Rightarrow> map_of (hands room) playerName)"

definition deck_of :: "server \<Rightarrow> string \<Rightarrow> card list" where
  "deck_of s roomId = (case rooms s roomId of None \<Rightarrow> [] | Some room \<Rightarrow> deck room)"

definition voted_of :: "server \<Rightarrow> string \<Rightarrow> string list" where
  "voted_of s roomId = (case rooms s roomId of None \<Rightarrow> [] | Some room \<Rightarrow> votedPlayers room)"

text \<open>What \<^verbatim>\<open>rooms[roomId].hands[playerName]\<close> reads in a room that exists.\<close>

definition hand_read :: "server \<Rightarrow> string \<Rightarrow> string \<Rightarrow> jsval" where
  "hand_read s roomId playerName =
     (case rooms s roomId of None \<Rightarrow> Undefined | Some room \<Rightarrow> getHand room playerName)"

subsection \<open>Observations on runs\<close>

text \<open>The event is a join-room call for the player in the room.\<close>

definition joins_as :: "string \<Rightarrow> string \<Rightarrow> event \<Rightarrow> bool" where
  "joins_as roomId playerName e =
     (case e of JoinRoom sid r n shuffled \<Rightarrow> r = roomId \<and> n = playerName | _ \<Rightarrow> False)"

text \<open>
  The cards of a room: those of its deck and of all the hands it records, with
  multiplicity; the hand that was stored under \<^verbatim>\<open>__proto__\<close> is one of them.
\<close>

fun hands_cards :: "(string \<times> card list) list \<Rightarrow> card multiset" where
  "hands_cards [] = {#}"
| "hands_cards (e # hs) = mset (snd e) + hands_cards hs"

definition room_cards :: "room \<Rightarrow> card multiset" where
  "room_cards room =
     mset (deck room) + hands_cards (hands room)
       + (case handsProto room of None \<Rightarrow> {#} | Some arr \<Rightarrow> mset arr)"

definition cards_of :: "server \<Rightarrow> string \<Rightarrow> card multiset" where
  "cards_of s roomId = (case rooms s roomId of None \<Rightarrow> {#} | Some room \<Rightarrow> room_cards room)"

text \<open>
  The shuffle that a join-room call hands to \<^verbatim>\<open>createNewRoom\<close> is a permutation of
  the catalog \<^verbatim>\<open>allCards\<close>.
\<close>

definition shuffled_from :: "card list \<Rightarrow> event \<Rightarrow> bool" where
  "shuffled_from catalog e =
     (case e of JoinRoom sid r n shuffled \<Rightarrow> mset shuffled = mset catalog | _ \<Rightarrow> True)"

text \<open>
  The cards that an event discards without replacement because the deck is exhausted:
  the copies of the card that a discard-card call takes from a hand while the deck of the
  room is empty. Summed over a run.
\<close>

definition discardedOnEmptyDeck :: "server \<Rightarrow> event \<Rightarrow> string \<Rightarrow> nat" where
  "discardedOnEmptyDeck s e roomId =
     (case e of
        DiscardCard sid r n c \<Rightarrow>
          (case rooms s r of
             None \<Rightarrow> 0
           | Some room \<Rightarrow>
               if r = roomId \<and> deck room = []
               then (case getHand room n of Cards h \<Rightarrow> count_list h c | _ \<Rightarrow> 0) else 0)
      | _ \<Rightarrow> 0)"

fun exhaustionDiscards :: "server \<Rightarrow> event list \<Rightarrow> string \<Rightarrow> nat" where
  "exhaustionDiscards s [] roomId = 0"
| "exhaustionDiscards s (e # es) roomId =
     discardedOnEmptyDeck s e roomId + exhaustionDiscards (state_of (step s e)) es roomId"



text \<open>
  The cards a room can hold at most: those it holds, or the whole catalog while the room
  does not exist.
\<close>

definition budget :: "card list \<Rightarrow> server \<Rightarrow> string \<Rightarrow> nat" where
  "budget catalog s roomId =
     (case rooms s roomId of None \<Rightarrow> length catalog | Some room \<Rightarrow> size (room_cards room))"


subsection \<open>Sample inputs\<close>

text \<open>
  Concrete catalogs and runs on which the theorems below are evaluated. In the room
  \<open>''r''\<close> of \<open>lobby\<close>, Alice and Bob have joined over a catalog of sixteen cards that
  the shuffle left in order.
\<close>

definition sample_deck :: "card list" where
  "sample_deck = [''c01'', ''c02'', ''c03'', ''c04'', ''c05'', ''c06'', ''c07'', ''c08'',
                  ''c09'', ''c10'', ''c11'', ''c12'', ''c13'', ''c14'', ''c15'', ''c16'']"

definition alice_and_bob :: "event list" where
  "alice_and_bob =
     [Connect ''s1'', JoinRoom ''s1'' ''r'' ''Alice'' sample_deck,
      Connect ''s2'', JoinRoom ''s2'' ''r'' ''Bob'' sample_deck]"

definition lobby_room :: room where
  "lobby_room =
     \<lparr>players = [''Alice'', ''Bob''], votes = Map.empty, votedPlayers = [], readyPlayers = [],
      turn = 1, submissions = [], deck = [''c15'', ''c16''],
      hands = [(''Alice'', [''c01'', ''c02'', ''c03'', ''c04'', ''c05'', ''c06'', ''c07'']),
               (''Bob'', [''c08'', ''c09'', ''c10'', ''c11'', ''c12'', ''c13'', ''c14''])],
      handsProto = None, turnProcessed = None\<rparr>"

definition lobby :: server where
  "lobby = \<lparr>rooms = [''r'' \<mapsto> lobby_room],
            sockets = [(''s1'', Some (''r'', ''Alice'')), (''s2'', Some (''r'', ''Bob''))]\<rparr>"

section \<open>Properties\<close>

lemmas handler_defs =
  join_room_def submit_title_def vote_def discard_card_def request_hand_def
  ready_for_next_turn_def disconnect_def removePlayerFromRoom_def createNewRoom_def
  drawCards_def advanceTurn_def resendHands_def findSocket_def validUsedCards_def

lemmas object_defs = getProperty_def getHand_def setHand_def countUp_def

lemmas key_defs = objectPrototypeKeys_def arrayPrototypeKeys_def arrayIndex_def digitValue_def

lemmas reader_defs = roster_of_def hand_of_def deck_of_def voted_of_def hand_read_def

lemmas sample_defs = init_def sample_deck_def alice_and_bob_def lobby_room_def lobby_def

lemma run_alice_and_bob:
  "run init alice_and_bob =
     Done lobby
       [ToSocket ''s1'' (DealHand (Cards [''c01'', ''c02'', ''c03'', ''c04'', ''c05'', ''c06'', ''c07''])),
        ToRoom ''r'' (PlayersInRoom [''Alice'']),
        ToSocket ''s2'' (DealHand (Cards [''c08'', ''c09'', ''c10'', ''c11'', ''c12'', ''c13'', ''c14''])),
        ToRoom ''r'' (PlayersInRoom [''Alice'', ''Bob''])]"
  by (simp add: handler_defs object_defs key_defs sample_defs Let_def)

lemma rooms_lobby: "rooms lobby ''r'' = Some lobby_room"
  by (simp add: lobby_def)

subsection \<open>Helper lemmas\<close>

lemma getProperty_Some [simp]: "obj k = Some v \<Longrightarrow> getProperty obj k = Own v"
  by (simp add: getProperty_def)

lemma getProperty_Own_iff: "getProperty obj k = Own v \<longleftrightarrow> obj k = Some v"
  by (auto simp: getProperty_def split: option.splits)

lemma getProperty_Absent_iff:
  "getProperty obj k = Absent \<longleftrightarrow> obj k = None \<and> k \<notin> set objectPrototypeKeys"
  by (auto simp: getProperty_def split: option.splits)

lemma getProperty_Inherited_iff:
  "getProperty obj k = Inherited \<longleftrightarrow> obj k = None \<and> k \<in> set objectPrototypeKeys"
  by (auto simp: getProperty_def split: option.splits)

lemma threw_case_outcome [simp]:
  "threw (case x of Done r outs \<Rightarrow> Done (f r outs) (g r outs)
                  | Threw r outs \<Rightarrow> Threw (f' r outs) (g' r outs)) = threw x"
  by (cases x) simp_all

lemma state_of_case_outcome [simp]:
  "state_of (case x of Done r outs \<Rightarrow> Done (f r) (g r outs)
                     | Threw r outs \<Rightarrow> Threw (f r) (g' r outs)) = f (state_of x)"
  by (cases x) simp_all

lemma emitted_case_outcome [simp]:
  "emitted (case x of Done r outs \<Rightarrow> Done (f r outs) (g outs)
                    | Threw r outs \<Rightarrow> Threw (f' r outs) (g outs)) = g (emitted x)"
  by (cases x) simp_all

lemma getHand_own [simp]: "map_of (hands room) k = Some h \<Longrightarrow> getHand room k = Cards h"
  by (simp add: getHand_def)

lemma setHand_own [simp]:
  "map_of (hands room) k = Some h \<Longrightarrow>
     setHand k h' room = room\<lparr>hands := AList.update k h' (hands room)\<rparr>"
  by (simp add: setHand_def)

lemma setHand_frame [simp]:
  "players (setHand k h room) = players room"
  "votes (setHand k h room) = votes room"
  "votedPlayers (setHand k h room) = votedPlayers room"
  "readyPlayers (setHand k h room) = readyPlayers room"
  "turn (setHand k h room) = turn room"
  "submissions (setHand k h room) = submissions room"
  "deck (setHand k h room) = deck room"
  "turnProcessed (setHand k h room) = turnProcessed room"
  by (simp_all add: setHand_def)

lemma replenishHands_frame:
  "turn (state_of (replenishHands socks roomId ts room)) = turn room
   \<and> players (state_of (replenishHands socks roomId ts room)) = players room
   \<and> votes (state_of (replenishHands socks roomId ts room)) = votes room
   \<and> votedPlayers (state_of (replenishHands socks roomId ts room)) = votedPlayers room
   \<and> readyPlayers (state_of (replenishHands socks roomId ts room)) = readyPlayers room
   \<and> submissions (state_of (replenishHands socks roomId ts room)) = submissions room
   \<and> turnProcessed (state_of (replenishHands socks roomId ts room)) = turnProcessed room"
proof (induction ts arbitrary: room)
  case Nil
  then show ?case by simp
next
  case (Cons t ts)
  show ?case
  proof (cases "if truthy (getHand room (sub_playerName t)) then getHand room (sub_playerName t)
                else Cards []")
    case (Cards hand)
    define room1 where "room1 = setHand (sub_playerName t)
        (filter (\<lambda>x. x \<notin> set (case sub_usedCards t of NotArray \<Rightarrow> [] | CardArray cs \<Rightarrow> cs)) hand
           @ fst (drawCards (deck room) (7 - int (length (filter (\<lambda>x. x \<notin> set
               (case sub_usedCards t of NotArray \<Rightarrow> [] | CardArray cs \<Rightarrow> cs)) hand)))))
        (room\<lparr>deck := snd (drawCards (deck room) (7 - int (length (filter (\<lambda>x. x \<notin> set
               (case sub_usedCards t of NotArray \<Rightarrow> [] | CardArray cs \<Rightarrow> cs)) hand))))\<rparr>)"
    have "state_of (replenishHands socks roomId (t # ts) room)
        = state_of (replenishHands socks roomId ts room1)"
      using Cards
      by (simp add: Let_def split_beta room1_def split: outcome.splits del: replenishHands.simps(1))
    with Cons.IH [of room1] show ?thesis
      by (simp add: room1_def)
  qed (simp_all)
qed

lemma mset_filter_out:
  "c \<in> set hand \<Longrightarrow> mset (filter (\<lambda>x. x \<noteq> c) hand) \<subseteq># mset hand - {#c#}"
  by (rule mset_subset_eqI) (auto simp: count_eq_zero_iff)

lemma mset_filter_out_single:
  "count_list hand c = 1 \<Longrightarrow> mset (filter (\<lambda>x. x \<noteq> c) hand) = mset hand - {#c#}"
  by (rule multiset_eqI) (auto simp: count_mset)

lemma length_filter_out:
  "c \<in> set hand \<Longrightarrow> length (filter (\<lambda>x. x \<noteq> c) hand) < length hand"
  by (induction hand) (auto simp: less_Suc_eq_le)

subsection \<open>Voting\<close>

text \<open>
  What the vote handler does: the broadcast depends on the length of
  \<^verbatim>\<open>votedPlayers\<close> after the push, whoever the voter is.
\<close>

lemma vote_all_voted_by_count:
  assumes "rooms s roomId = Some room"
  shows "emitted (vote s roomId playerName targetName) =
           (if Suc (length (votedPlayers room)) = length (players room)
            then [ToRoom roomId AllVoted] else [])"
  using assms by (simp add: vote_def Let_def)

text \<open>
  Claim C1. In a room with a roster of N players the all-voted broadcast is emitted
  exactly when the N-th distinct player votes; a second vote of a player who has voted
  already never fires it early. The handler does not keep this: with Alice and Bob in the
  room and Bob the only voter so far, a second vote of Bob makes \<^verbatim>\<open>votedPlayers\<close>
  as long as the roster and the broadcast goes out, although Alice has not voted. The
  ready-for-next-turn handler guards its push with \<^verbatim>\<open>includes\<close>; the vote handler
  has no such guard.
\<close>

theorem duplicate_vote_fires_all_voted:
  "roster_of (state_of (run init (alice_and_bob @ [Vote ''s2'' ''r'' ''Bob'' ''Alice'']))) ''r''
     = [''Alice'', ''Bob'']
   \<and> voted_of (state_of (run init (alice_and_bob @ [Vote ''s2'' ''r'' ''Bob'' ''Alice'']))) ''r''
     = [''Bob'']
   \<and> emitted (vote (state_of (run init (alice_and_bob @ [Vote ''s2'' ''r'' ''Bob'' ''Alice''])))
          ''r'' ''Bob'' ''Alice'') = [ToRoom ''r'' AllVoted]"
  by (simp add: handler_defs object_defs key_defs reader_defs sample_defs Let_def)

subsection \<open>Submissions\<close>

text \<open>
  Claim C5. A submit-title call whose \<^verbatim>\<open>usedCards\<close> is not an array of exactly two
  cards changes no state and sends nothing. Otherwise, in the room it names, every earlier
  submission of the player is removed and one new submission with zero votes is appended,
  so that the player has exactly one submission in the list.
\<close>

theorem submit_title_checks_usedCards:
  "((\<forall>a b. used \<noteq> CardArray [a, b]) \<longrightarrow>
      submit_title s roomId playerName title used = Done s [])
   \<and> (rooms s roomId = Some room \<and> used = CardArray [a, b] \<longrightarrow>
        (let new = \<lparr>sub_playerName = playerName, sub_title = title, sub_turn = turn room,
                    sub_votes = 0, sub_usedCards = used\<rparr>;
             subs = filter (\<lambda>t. sub_playerName t \<noteq> playerName) (submissions room) @ [new]
         in submit_title s roomId playerName title used =
              Done (s\<lparr>rooms := (rooms s)(roomId \<mapsto> room\<lparr>submissions := subs\<rparr>)\<rparr>)
                [ToRoom roomId (TitleSubmitted playerName title)]
            \<and> filter (\<lambda>t. sub_playerName t = playerName) subs = [new]))"
proof -
  have invalid: "\<not> validUsedCards used" if "\<forall>a b. used \<noteq> CardArray [a, b]"
  proof (cases used)
    case NotArray
    then show ?thesis by (simp add: validUsedCards_def)
  next
    case (CardArray cs)
    with that have "length cs \<noteq> 2"
      by (metis length_0_conv length_Suc_conv numeral_2_eq_2)
    with CardArray show ?thesis by (simp add: validUsedCards_def)
  qed
  have none: "filter (\<lambda>t. sub_playerName t = playerName)
      (filter (\<lambda>t. sub_playerName t \<noteq> playerName) ts) = []" for ts :: "submission list"
    by (induction ts) auto
  show ?thesis
    using invalid
    by (auto simp: submit_title_def validUsedCards_def Let_def none split: property.splits)
qed

theorem submit_title_checks_usedCards_witness:
  "submit_title lobby ''r'' ''Alice'' ''T'' (CardArray [''c01'']) = Done lobby []
   \<and> submit_title lobby ''r'' ''Alice'' ''T'' NotArray = Done lobby []
   \<and> submit_title lobby ''r'' ''Alice'' ''T'' (CardArray [''c01'', ''c02'']) =
       Done (lobby\<lparr>rooms := (rooms lobby)(''r'' \<mapsto> lobby_room\<lparr>submissions :=
          [\<lparr>sub_playerName = ''Alice'', sub_title = ''T'', sub_turn = 1, sub_votes = 0,
            sub_usedCards = CardArray [''c01'', ''c02'']\<rparr>]\<rparr>)\<rparr>)
        [ToRoom ''r'' (TitleSubmitted ''Alice'' ''T'')]"
  using submit_title_checks_usedCards [where s = lobby and roomId = "''r''"
      and playerName = "''Alice''" and title = "''T''" and used = "CardArray [''c01'']"]
    submit_title_checks_usedCards [where s = lobby and roomId = "''r''"
      and playerName = "''Alice''" and title = "''T''" and used = NotArray]
    submit_title_checks_usedCards [where s = lobby and roomId = "''r''" and room = lobby_room
      and playerName = "''Alice''" and title = "''T''" and used = "CardArray [''c01'', ''c02'']"
      and a = "''c01''" and b = "''c02''"]
    rooms_lobby
  by (simp add: Let_def lobby_room_def)

subsection \<open>Discarding a card\<close>

text \<open>
  When the card occurs once in the hand and the deck is not empty, the handler swaps it
  for the front card of the deck and sends the new hand to the requesting connection.
\<close>

lemma discard_card_single_copy:
  assumes "rooms s roomId = Some room" and "map_of (hands room) playerName = Some hand"
    and "count_list hand c = 1" and "deck room = newCard # rest"
  shows "discard_card s sid roomId playerName c =
           Done (s\<lparr>rooms := (rooms s)(roomId \<mapsto> room\<lparr>deck := rest,
                hands := AList.update playerName (filter (\<lambda>x. x \<noteq> c) hand @ [newCard])
                           (hands room)\<rparr>)\<rparr>)
            [ToSocket sid (DealHand (Cards (filter (\<lambda>x. x \<noteq> c) hand @ [newCard])))]
         \<and> mset (filter (\<lambda>x. x \<noteq> c) hand @ [newCard]) = mset hand - {#c#} + {#newCard#}"
proof -
  from assms(3) have "c \<in> set hand"
    by (metis count_list_0_iff zero_neq_one)
  with assms show ?thesis
    by (simp add: discard_card_def Let_def mset_filter_out_single update_conv'
        del: mset_filter)
qed

text \<open>
  Claim C7. When the room exists, the hand contains the card and the deck is not empty,
  discard-card removes exactly one instance of the card from the hand, adds exactly one
  card from the front of the deck and sends the hand to the requesting connection only.
  The handler filters the hand by \<^verbatim>\<open>c !== card\<close>, which removes every instance: over
  a catalog that holds the card \<open>''a''\<close> twice, Alice is dealt both copies, discards one
  and is left with six cards, neither of them \<open>''a''\<close>. The comment above the handler
  says that one card is discarded and one drawn.
\<close>

theorem discard_removes_every_copy:
  "hand_of (state_of (run init
       [Connect ''s1'',
        JoinRoom ''s1'' ''r'' ''Alice'' [''a'', ''a'', ''b'', ''c'', ''d'', ''e'', ''f'', ''g'', ''h'']]))
     ''r'' ''Alice'' = Some [''a'', ''a'', ''b'', ''c'', ''d'', ''e'', ''f'']
   \<and> run init
       [Connect ''s1'',
        JoinRoom ''s1'' ''r'' ''Alice'' [''a'', ''a'', ''b'', ''c'', ''d'', ''e'', ''f'', ''g'', ''h''],
        DiscardCard ''s1'' ''r'' ''Alice'' ''a'']
     = Done \<lparr>rooms = [''r'' \<mapsto>
            \<lparr>players = [''Alice''], votes = Map.empty, votedPlayers = [], readyPlayers = [],
             turn = 1, submissions = [], deck = [''h''],
             hands = [(''Alice'', [''b'', ''c'', ''d'', ''e'', ''f'', ''g''])],
             handsProto = None, turnProcessed = None\<rparr>],
         sockets = [(''s1'', Some (''r'', ''Alice''))]\<rparr>
        [ToSocket ''s1'' (DealHand (Cards [''a'', ''a'', ''b'', ''c'', ''d'', ''e'', ''f''])),
         ToRoom ''r'' (PlayersInRoom [''Alice'']),
         ToSocket ''s1'' (DealHand (Cards [''b'', ''c'', ''d'', ''e'', ''f'', ''g'']))]"
  by (simp add: handler_defs object_defs key_defs reader_defs init_def Let_def)

text \<open>
  Claim C8. When discard-card is called with the deck empty (the room exists and the hand
  contains the card), the hand is left unchanged and no deal-hand message is sent. The
  handler removes the card from the hand before it looks at the deck, so the first half
  fails: with a catalog of seven cards Alice holds all of them, the deck is empty, and
  after her discard of \<open>''c01''\<close> her hand has six cards.
\<close>

theorem discard_on_empty_deck_counterexample:
  "deck_of (state_of (run init [Connect ''s1'', JoinRoom ''s1'' ''r'' ''Alice'' (take 7 sample_deck)]))
     ''r'' = []
   \<and> hand_of (state_of (run init [Connect ''s1'', JoinRoom ''s1'' ''r'' ''Alice'' (take 7 sample_deck)]))
     ''r'' ''Alice'' = Some [''c01'', ''c02'', ''c03'', ''c04'', ''c05'', ''c06'', ''c07'']
   \<and> hand_of (state_of (run init [Connect ''s1'', JoinRoom ''s1'' ''r'' ''Alice'' (take 7 sample_deck),
                              DiscardCard ''s1'' ''r'' ''Alice'' ''c01'']))
     ''r'' ''Alice'' = Some [''c02'', ''c03'', ''c04'', ''c05'', ''c06'', ''c07'']"
  by (simp add: handler_defs object_defs key_defs reader_defs sample_defs Let_def)

text \<open>
  Claim C8, amended. When discard-card is called with the deck empty (the room exists and
  the hand contains the card), the card leaves the hand and nothing replaces it: the hand
  gets shorter, by exactly the discarded card when the hand held it once; the deck and
  the rest of the room are unchanged and no message is sent.
\<close>

theorem discard_on_empty_deck:
  assumes "rooms s roomId = Some room" and "deck room = []"
    and "map_of (hands room) playerName = Some hand" and "c \<in> set hand"
  shows "\<exists>hand'. discard_card s sid roomId playerName c =
            Done (s\<lparr>rooms := (rooms s)(roomId \<mapsto>
                 room\<lparr>hands := AList.update playerName hand' (hands room)\<rparr>)\<rparr>) []
          \<and> hand_of (state_of (discard_card s sid roomId playerName c)) roomId playerName
              = Some hand'
          \<and> length hand' < length hand
          \<and> mset hand' \<subseteq># mset hand - {#c#}
          \<and> (count_list hand c = 1 \<longrightarrow> mset hand' = mset hand - {#c#})"
  using assms
  by (intro exI [of _ "filter (\<lambda>x. x \<noteq> c) hand"])
     (simp add: discard_card_def Let_def hand_of_def update_conv' mset_filter_out
        mset_filter_out_single length_filter_out del: mset_filter)

theorem discard_on_empty_deck_witness:
  "\<exists>hand'. emitted (discard_card (lobby\<lparr>rooms := [''r'' \<mapsto> lobby_room\<lparr>deck := []\<rparr>]\<rparr>)
                  ''s1'' ''r'' ''Alice'' ''c01'') = []
     \<and> hand_of (state_of (discard_card (lobby\<lparr>rooms := [''r'' \<mapsto> lobby_room\<lparr>deck := []\<rparr>]\<rparr>)
                        ''s1'' ''r'' ''Alice'' ''c01'')) ''r'' ''Alice'' = Some hand'
     \<and> length hand' < 7
     \<and> mset hand' = {#''c02'', ''c03'', ''c04'', ''c05'', ''c06'', ''c07''#}"
  using discard_on_empty_deck [where s = "lobby\<lparr>rooms := [''r'' \<mapsto> lobby_room\<lparr>deck := []\<rparr>]\<rparr>"
      and roomId = "''r''" and room = "lobby_room\<lparr>deck := []\<rparr>" and playerName = "''Alice''"
      and hand = "[''c01'', ''c02'', ''c03'', ''c04'', ''c05'', ''c06'', ''c07'']"
      and c = "''c01''" and sid = "''s1''"]
  by (auto simp: lobby_room_def)

subsection \<open>Unknown rooms\<close>

text \<open>
  A room id that names no own property of \<^verbatim>\<open>rooms\<close> and no property of
  \<^verbatim>\<open>Object.prototype\<close> is ignored: the five handlers and
  \<^verbatim>\<open>removePlayerFromRoom\<close> return the state as it was and send nothing.
\<close>

lemma absent_room_ignored:
  assumes "rooms s roomId = None" and "roomId \<notin> set objectPrototypeKeys"
  shows "submit_title s roomId playerName title used = Done s []
     \<and> vote s roomId playerName targetName = Done s []
     \<and> discard_card s sid roomId playerName c = Done s []
     \<and> request_hand s sid roomId playerName = Done s []
     \<and> ready_for_next_turn s roomId playerName = Done s []
     \<and> removePlayerFromRoom s roomId playerName = Done s []"
proof -
  from assms have "getProperty (rooms s) roomId = Absent"
    by (simp add: getProperty_Absent_iff)
  then show ?thesis
    by (simp add: submit_title_def vote_def discard_card_def request_hand_def
        ready_for_next_turn_def removePlayerFromRoom_def)
qed

text \<open>
  A room id that names a property of \<^verbatim>\<open>Object.prototype\<close> passes
  \<^verbatim>\<open>if (!room) return\<close>, and the first read of a field of the room throws; no state
  changes and nothing is sent.
\<close>

lemma inherited_room_throws:
  assumes "rooms s roomId = None" and "roomId \<in> set objectPrototypeKeys"
  shows "submit_title s roomId playerName title (CardArray [a, b]) = Threw s []
     \<and> vote s roomId playerName targetName = Threw s []
     \<and> discard_card s sid roomId playerName c = Threw s []
     \<and> request_hand s sid roomId playerName = Threw s []
     \<and> ready_for_next_turn s roomId playerName = Threw s []
     \<and> removePlayerFromRoom s roomId playerName = Threw s []
     \<and> join_room s sid roomId playerName shuffled = Threw s []"
proof -
  from assms have "getProperty (rooms s) roomId = Inherited"
    by (simp add: getProperty_Inherited_iff)
  then show ?thesis
    by (simp add: submit_title_def vote_def discard_card_def request_hand_def
        ready_for_next_turn_def removePlayerFromRoom_def join_room_def validUsedCards_def)
qed

text \<open>
  Claim C9. An inbound event that names a room that does not exist (submit-title, vote,
  discard-card, request-hand, ready-for-next-turn, or the removal of a player on leave or
  disconnect) is a silent no-op: no state is created or changed and no error is surfaced.
  The handlers test \<^verbatim>\<open>if (!room) return\<close> on a plain object: for the room id
  \<open>''toString''\<close>, which no one has joined, \<^verbatim>\<open>rooms[roomId]\<close> is the inherited
  function, the test lets it through and each handler throws a \<^verbatim>\<open>TypeError\<close>. For
  every other id that names no room the handlers do what the claim says
  (\<open>absent_room_ignored\<close>).
\<close>

theorem unknown_room_toString_throws:
  "rooms lobby ''toString'' = None
   \<and> vote lobby ''toString'' ''Alice'' ''Bob'' = Threw lobby []
   \<and> submit_title lobby ''toString'' ''Alice'' ''T'' (CardArray [''c01'', ''c02'']) = Threw lobby []
   \<and> discard_card lobby ''s1'' ''toString'' ''Alice'' ''c01'' = Threw lobby []
   \<and> request_hand lobby ''s1'' ''toString'' ''Alice'' = Threw lobby []
   \<and> ready_for_next_turn lobby ''toString'' ''Alice'' = Threw lobby []
   \<and> removePlayerFromRoom lobby ''toString'' ''Alice'' = Threw lobby []"
  by (simp add: submit_title_def vote_def discard_card_def request_hand_def
      ready_for_next_turn_def removePlayerFromRoom_def validUsedCards_def
      getProperty_def objectPrototypeKeys_def lobby_def)

subsection \<open>Asking for the hand\<close>

text \<open>
  request-hand never changes the state, whether it returns or throws; it sends a message
  exactly when the room is an own property of \<^verbatim>\<open>rooms\<close> and the read of the hand is
  truthy, and the message carries what was read.
\<close>

lemma request_hand_frame:
  "state_of (request_hand s sid roomId playerName) = s
   \<and> (emitted (request_hand s sid roomId playerName) \<noteq> []) =
       (\<exists>room. rooms s roomId = Some room \<and> truthy (getHand room playerName))
   \<and> (\<forall>room. rooms s roomId = Some room \<and> truthy (getHand room playerName) \<longrightarrow>
         request_hand s sid roomId playerName =
           Done s [ToSocket sid (DealHand (getHand room playerName))])"
  by (auto simp: request_hand_def getProperty_def split: option.splits)

text \<open>
  For a room whose hands still have \<^verbatim>\<open>Object.prototype\<close> as prototype and a name
  that \<^verbatim>\<open>Object.prototype\<close> does not know, the read is truthy exactly when a hand is
  recorded.
\<close>

lemma request_hand_ordinary_name:
  assumes "rooms s roomId = Some room" and "handsProto room = None"
    and "playerName \<notin> set objectPrototypeKeys"
  shows "request_hand s sid roomId playerName =
           Done s (case map_of (hands room) playerName of
                     None \<Rightarrow> []
                   | Some h \<Rightarrow> [ToSocket sid (DealHand (Cards h))])"
  using assms by (simp add: request_hand_def getHand_def split: option.splits)

text \<open>
  Claim C10. request-hand never changes the state of any room, and it sends a deal-hand
  reply to the requesting connection if and only if the room exists and a hand is
  recorded for the player; otherwise it sends nothing. The state is never changed, but the
  handler tests \<^verbatim>\<open>room.hands[playerName]\<close> on a plain object: in the room of Alice
  and Bob no hand is recorded for \<open>''toString''\<close>, the read yields the inherited function,
  which is truthy, and a deal-hand that carries it is sent. For the room id
  \<open>''toString''\<close> the handler throws.
\<close>

theorem request_hand_inherited_name:
  "hand_of lobby ''r'' ''toString'' = None
   \<and> request_hand lobby ''s1'' ''r'' ''toString'' = Done lobby [ToSocket ''s1'' (DealHand Builtin)]
   \<and> rooms lobby ''toString'' = None
   \<and> request_hand lobby ''s1'' ''toString'' ''Alice'' = Threw lobby []"
  by (simp add: request_hand_def getProperty_def getHand_def objectPrototypeKeys_def hand_of_def
      lobby_def lobby_room_def)

subsection \<open>The reset at the end of a turn\<close>

text \<open>
  When the turn-advancement block runs to its end, the votes mapping, the voted and ready
  sets and the submissions are empty, and the turn counter is one more than before.
\<close>

lemma advanceTurn_resets:
  assumes "advanceTurn socks roomId room = Done room' outs"
  shows "votes room' = Map.empty \<and> votedPlayers room' = [] \<and> readyPlayers room' = []
     \<and> submissions room' = [] \<and> turn room' = turn room + 1"
proof -
  have "turn (state_of (replenishHands socks roomId (submissions room)
      (room\<lparr>turnProcessed := Some (turn room)\<rparr>))) = turn room"
    using replenishHands_frame
      [of socks roomId "submissions room" "room\<lparr>turnProcessed := Some (turn room)\<rparr>"]
    by simp
  with assms show ?thesis
    by (auto simp: advanceTurn_def Let_def split: outcome.splits)
qed



text \<open>
  Claim C3. Immediately after the turn-advancement block has run on a room, the votes
  mapping, the voted and ready sets and the submissions are empty, and the turn counter is
  exactly one more than before. The block does not always reach its reset: its refill loop
  reads \<^verbatim>\<open>room.hands[playerName] || []\<close> on a plain object. Alice is alone in the
  room and has voted; a submission arrives under the name \<open>''toString''\<close> (submit-title
  takes any name); Alice is ready, the barrier is full, the block starts, the read yields
  the inherited function and \<^verbatim>\<open>hand.filter\<close> throws. The room is left with its vote,
  its voter, its ready player and the submission, at turn 1, and no next-turn is sent.
  When the block runs to its end it resets the room (\<open>advanceTurn_resets\<close>), and it does
  so whenever the hands read as a dictionary should (\<open>advanceTurn_completes\<close>).
\<close>

theorem advance_throws_before_reset:
  "run init
     [Connect ''s1'', JoinRoom ''s1'' ''r'' ''Alice'' sample_deck,
      Vote ''s1'' ''r'' ''Alice'' ''Alice'',
      SubmitTitle ''s1'' ''r'' ''toString'' ''T'' (CardArray [''c01'', ''c02'']),
      ReadyForNextTurn ''s1'' ''r'' ''Alice'']
   = Threw
       \<lparr>rooms = [''r'' \<mapsto>
          \<lparr>players = [''Alice''], votes = [''Alice'' \<mapsto> Count 1], votedPlayers = [''Alice''],
           readyPlayers = [''Alice''], turn = 1,
           submissions = [\<lparr>sub_playerName = ''toString'', sub_title = ''T'', sub_turn = 1,
                           sub_votes = 0, sub_usedCards = CardArray [''c01'', ''c02'']\<rparr>],
           deck = [''c08'', ''c09'', ''c10'', ''c11'', ''c12'', ''c13'', ''c14'', ''c15'', ''c16''],
           hands = [(''Alice'', [''c01'', ''c02'', ''c03'', ''c04'', ''c05'', ''c06'', ''c07''])],
           handsProto = None, turnProcessed = Some 1\<rparr>],
        sockets = [(''s1'', Some (''r'', ''Alice''))]\<rparr>
       [ToSocket ''s1'' (DealHand (Cards [''c01'', ''c02'', ''c03'', ''c04'', ''c05'', ''c06'', ''c07''])),
        ToRoom ''r'' (PlayersInRoom [''Alice'']),
        ToRoom ''r'' AllVoted,
        ToRoom ''r'' (TitleSubmitted ''toString'' ''T''),
        ToRoom ''r'' (PlayerReadyNext ''Alice'')]"
  by (simp add: handler_defs object_defs key_defs sample_defs Let_def)

subsection \<open>Runs\<close>

lemma threw_run_Cons:
  "threw (run s (e # es)) = (threw (step s e) \<or> threw (run (state_of (step s e)) es))"
  by (cases "step s e"; cases "run (state_of (step s e)) es") simp_all

lemma state_of_run_Cons:
  "state_of (run s (e # es)) = state_of (run (state_of (step s e)) es)"
  by (cases "step s e"; cases "run (state_of (step s e)) es") simp_all


subsection \<open>Joining\<close>

lemma count_list_filter_out: "count_list (filter (\<lambda>x. x \<noteq> n) xs) n = 0"
  by (induction xs) auto

lemma filter_key_update_delete:
  "filter (\<lambda>e. fst e = k) (AList.update k v (AList.delete k al)) = [(k, v)]"
  by (induction al) auto

lemma filter_sub_out:
  "filter (\<lambda>t. sub_playerName t = n) (filter (\<lambda>t. sub_playerName t \<noteq> n) ts) = []"
  by (induction ts) auto

text \<open>
  \<^verbatim>\<open>removePlayerFromRoom\<close> on a room that is an own property of \<^verbatim>\<open>rooms\<close>
  clears the own properties of the name; a hand stored as the prototype stays.
\<close>

lemma removePlayerFromRoom_clears:
  assumes "rooms s roomId = Some room"
  shows "\<exists>room1. \<not> threw (removePlayerFromRoom s roomId playerName)
     \<and> rooms (state_of (removePlayerFromRoom s roomId playerName)) roomId = Some room1
     \<and> playerName \<notin> set (players room1) \<and> votes room1 playerName = None
     \<and> playerName \<notin> set (votedPlayers room1) \<and> playerName \<notin> set (readyPlayers room1)
     \<and> map_of (hands room1) playerName = None
     \<and> handsProto room1 = handsProto room
     \<and> filter (\<lambda>t. sub_playerName t = playerName) (submissions room1) = []"
  using assms by (simp add: removePlayerFromRoom_def delete_conv' filter_sub_out)

text \<open>
  One join-room call for a room id that reads as absent or as a room, and a name other
  than \<open>''__proto__''\<close>: the player is in the roster once, holds the first seven cards
  of the deck as it was before the call, and no own property of that name is left in the
  voted and ready sets, the tallies and the submissions.
\<close>

lemma join_room_ordinary:
  assumes "getProperty (rooms s) roomId \<noteq> Inherited" and "playerName \<noteq> ''__proto__''"
    and "deck_before = (case rooms s roomId of None \<Rightarrow> shuffled | Some r \<Rightarrow> deck r)"
  shows "\<exists>s' outs room. join_room s sid roomId playerName shuffled = Done s' outs
     \<and> rooms s' roomId = Some room
     \<and> count_list (players room) playerName = 1
     \<and> filter (\<lambda>e. fst e = playerName) (hands room) = [(playerName, take 7 deck_before)]
     \<and> map_of (hands room) playerName = Some (take 7 deck_before)
     \<and> playerName \<notin> set (votedPlayers room) \<and> playerName \<notin> set (readyPlayers room)
     \<and> votes room playerName = None
     \<and> filter (\<lambda>t. sub_playerName t = playerName) (submissions room) = []"
proof (cases "getProperty (rooms s) roomId")
  case Absent
  then have "rooms s roomId = None"
    by (simp add: getProperty_Absent_iff)
  with Absent assms(2,3) show ?thesis
    by (simp add: join_room_def removePlayerFromRoom_def createNewRoom_def drawCards_def
        setHand_def Let_def update_conv')
next
  case Inherited
  with assms(1) show ?thesis by simp
next
  case (Own room)
  then have "rooms s roomId = Some room"
    by (simp add: getProperty_Own_iff)
  with Own assms(2,3) show ?thesis
    by (simp add: join_room_def removePlayerFromRoom_def drawCards_def setHand_def Let_def
        count_list_filter_out filter_key_update_delete filter_sub_out update_conv')
qed

lemma joins_ordinary:
  assumes "evs \<noteq> []" and "list_all (joins_as roomId playerName) evs"
    and "getProperty (rooms s) roomId \<noteq> Inherited" and "playerName \<noteq> ''__proto__''"
  shows "\<exists>s' outs room hand. run s evs = Done s' outs
     \<and> rooms s' roomId = Some room
     \<and> count_list (players room) playerName = 1
     \<and> filter (\<lambda>e. fst e = playerName) (hands room) = [(playerName, hand)]
     \<and> map_of (hands room) playerName = Some hand
     \<and> playerName \<notin> set (votedPlayers room) \<and> playerName \<notin> set (readyPlayers room)
     \<and> votes room playerName = None
     \<and> filter (\<lambda>t. sub_playerName t = playerName) (submissions room) = []"
  using assms
proof (induction evs arbitrary: s)
  case Nil
  then show ?case by simp
next
  case (Cons e es)
  from Cons.prems(2) have "joins_as roomId playerName e" by simp
  then obtain sid shuffled where e: "e = JoinRoom sid roomId playerName shuffled"
    by (cases e) (simp_all add: joins_as_def)
  from join_room_ordinary [OF Cons.prems(3,4) refl, of sid shuffled]
  obtain s1 out1 room1 hand1 where j: "join_room s sid roomId playerName shuffled = Done s1 out1"
    and r1: "rooms s1 roomId = Some room1"
    and p1: "count_list (players room1) playerName = 1
       \<and> filter (\<lambda>e. fst e = playerName) (hands room1) = [(playerName, hand1)]
       \<and> map_of (hands room1) playerName = Some hand1
       \<and> playerName \<notin> set (votedPlayers room1) \<and> playerName \<notin> set (readyPlayers room1)
       \<and> votes room1 playerName = None
       \<and> filter (\<lambda>t. sub_playerName t = playerName) (submissions room1) = []"
    by blast
  show ?case
  proof (cases "es = []")
    case True
    with e j r1 p1 show ?thesis by simp
  next
    case False
    from r1 have "getProperty (rooms s1) roomId \<noteq> Inherited" by simp
    with Cons.IH [OF False _ _ Cons.prems(4), of s1] Cons.prems(2)
    obtain s' outs room hand where "run s1 es = Done s' outs"
      and "rooms s' roomId = Some room
       \<and> count_list (players room) playerName = 1
       \<and> filter (\<lambda>e. fst e = playerName) (hands room) = [(playerName, hand)]
       \<and> map_of (hands room) playerName = Some hand
       \<and> playerName \<notin> set (votedPlayers room) \<and> playerName \<notin> set (readyPlayers room)
       \<and> votes room playerName = None
       \<and> filter (\<lambda>t. sub_playerName t = playerName) (submissions room) = []"
      by auto
    with e j show ?thesis by simp
  qed
qed

text \<open>
  Claim C4. join is idempotent by player name: after any number of repeated join calls
  with the same name, the roster of the room holds the name exactly once and the hands
  mapping holds exactly one hand for it; before the name is added again, everything of the
  old occupant is removed from the roster, the vote tallies, the ready and voted sets,
  the hands and the submissions. The handler works on plain objects, and the claim fails
  for names that \<^verbatim>\<open>Object.prototype\<close> knows. For the room id \<open>''constructor''\<close>,
  \<^verbatim>\<open>rooms[roomId]\<close> is the inherited function: \<^verbatim>\<open>if (!rooms[roomId])\<close> creates no
  room, \<^verbatim>\<open>removePlayerFromRoom\<close> throws, and no roster holds the name, once or
  repeatedly. For the player name \<open>''__proto__''\<close> the assignment of the hand makes it
  the prototype of \<^verbatim>\<open>room.hands\<close>, which \<^verbatim>\<open>delete\<close> does not touch: after
  \<^verbatim>\<open>removePlayerFromRoom\<close> the old hand is still what the name reads. For every other
  room id and name the handler does what the claim says (\<open>joins_ordinary\<close>,
  \<open>removePlayerFromRoom_clears\<close>).
\<close>

theorem join_fails_on_inherited_names:
  "join_room lobby ''s3'' ''constructor'' ''Carol'' sample_deck = Threw lobby []
   \<and> run lobby [JoinRoom ''s3'' ''constructor'' ''Carol'' sample_deck,
                JoinRoom ''s3'' ''constructor'' ''Carol'' sample_deck] = Threw lobby []
   \<and> roster_of lobby ''constructor'' = []
   \<and> hand_read (state_of (run init [Connect ''s1'', JoinRoom ''s1'' ''r'' ''__proto__'' sample_deck]))
       ''r'' ''__proto__'' = Cards [''c01'', ''c02'', ''c03'', ''c04'', ''c05'', ''c06'', ''c07'']
   \<and> hand_read (state_of (removePlayerFromRoom
         (state_of (run init [Connect ''s1'', JoinRoom ''s1'' ''r'' ''__proto__'' sample_deck]))
         ''r'' ''__proto__''))
       ''r'' ''__proto__'' = Cards [''c01'', ''c02'', ''c03'', ''c04'', ''c05'', ''c06'', ''c07'']
   \<and> roster_of (state_of (removePlayerFromRoom
         (state_of (run init [Connect ''s1'', JoinRoom ''s1'' ''r'' ''__proto__'' sample_deck]))
         ''r'' ''__proto__''))
       ''r'' = []"
  by (simp add: handler_defs object_defs key_defs reader_defs sample_defs Let_def)

subsection \<open>The turn barrier\<close>



















subsection \<open>The cards of a room\<close>

lemma hands_cards_delete: "hands_cards (AList.delete k hs) \<subseteq># hands_cards hs"
proof (induction hs)
  case Nil
  then show ?case by simp
next
  case (Cons e hs)
  then show ?case
    by (auto intro: subset_mset.add_mono subset_mset.order_trans)
qed

lemma hands_cards_update:
  "hands_cards (AList.update k v hs) + mset (case map_of hs k of None \<Rightarrow> [] | Some h \<Rightarrow> h)
     = hands_cards hs + mset v"
  by (induction hs) auto

lemma mset_cancel_subset:
  fixes A B H K :: "'a multiset"
  assumes "A + H = B + K" and "K \<subseteq># H"
  shows "A \<subseteq># B"
proof -
  from assms(2) obtain D where "H = K + D"
    by (auto simp: mset_subset_eq_exists_conv)
  with assms(1) have "A + D = B"
    by (simp add: ac_simps)
  then show ?thesis
    by (metis mset_subset_eq_add_left)
qed

text \<open>
  An assignment to \<^verbatim>\<open>room.hands[k]\<close> replaces the array that the key read before,
  when it read an array, and adds a hand otherwise.
\<close>

lemma setHand_cards:
  "room_cards (setHand k h' room) + mset (case getHand room k of Cards h \<Rightarrow> h | _ \<Rightarrow> [])
     = room_cards room + mset h'"
proof (cases "map_of (hands room) k")
  case (Some h)
  with hands_cards_update [of k h' "hands room"] show ?thesis
    by (simp add: room_cards_def ac_simps)
next
  case None
  show ?thesis
  proof (cases "k = ''__proto__''")
    case True
    with None show ?thesis
      by (simp add: room_cards_def setHand_def getHand_def objectPrototypeKeys_def
          split: option.splits)
  next
    case False
    with None hands_cards_update [of k h' "hands room"] show ?thesis
      by (simp add: room_cards_def setHand_def getHand_def ac_simps split: option.splits)
  qed
qed

lemma getHand_deck [simp]: "getHand (room\<lparr>deck := d\<rparr>) k = getHand room k"
  by (simp add: getHand_def cong: option.case_cong)

lemma getHand_setHand [simp]: "getHand (setHand k h room) k = Cards h"
  by (auto simp: getHand_def setHand_def update_conv')

lemma room_cards_deck:
  "room_cards (room\<lparr>deck := drop n (deck room)\<rparr>) + mset (take n (deck room)) = room_cards room"
proof -
  have "mset (deck room) = mset (take n (deck room)) + mset (drop n (deck room))"
    by (metis append_take_drop_id mset_append)
  then show ?thesis
    by (simp add: room_cards_def)
qed

text \<open>A hand that is replaced by a part of itself and cards taken from the deck.\<close>

lemma setHand_refill:
  assumes "mset kept \<subseteq># mset (case getHand room k of Cards h \<Rightarrow> h | _ \<Rightarrow> [])"
  shows "room_cards (setHand k (kept @ take n (deck room)) (room\<lparr>deck := drop n (deck room)\<rparr>))
           \<subseteq># room_cards room"
proof -
  have "room_cards (setHand k (kept @ take n (deck room)) (room\<lparr>deck := drop n (deck room)\<rparr>))
          + mset (case getHand room k of Cards h \<Rightarrow> h | _ \<Rightarrow> [])
        = room_cards (room\<lparr>deck := drop n (deck room)\<rparr>) + mset (take n (deck room)) + mset kept"
    using setHand_cards [of k "kept @ take n (deck room)" "room\<lparr>deck := drop n (deck room)\<rparr>"]
    by (simp add: ac_simps)
  also have "\<dots> = room_cards room + mset kept"
    by (simp add: room_cards_deck)
  finally show ?thesis
    using assms by (rule mset_cancel_subset)
qed

lemma replenishHands_cards:
  "room_cards (state_of (replenishHands socks roomId ts room)) \<subseteq># room_cards room"
proof (induction ts arbitrary: room)
  case Nil
  then show ?case by simp
next
  case (Cons t ts)
  show ?case
  proof (cases "if truthy (getHand room (sub_playerName t)) then getHand room (sub_playerName t)
                else Cards []")
    case (Cards hand)
    define used where "used = (case sub_usedCards t of CardArray cs \<Rightarrow> cs | NotArray \<Rightarrow> [])"
    define newHand where "newHand = filter (\<lambda>x. x \<notin> set used) hand"
    define n where "n = nat (7 - int (length newHand))"
    define room1 where "room1 = setHand (sub_playerName t) (newHand @ take n (deck room))
        (room\<lparr>deck := drop n (deck room)\<rparr>)"
    from Cards have "mset hand
        \<subseteq># mset (case getHand room (sub_playerName t) of Cards h \<Rightarrow> h | _ \<Rightarrow> [])"
      by (auto split: if_splits)
    moreover have "mset newHand \<subseteq># mset hand"
      by (simp add: newHand_def)
    ultimately have "mset newHand
        \<subseteq># mset (case getHand room (sub_playerName t) of Cards h \<Rightarrow> h | _ \<Rightarrow> [])"
      by (rule subset_mset.order_trans [rotated])
    then have "room_cards room1 \<subseteq># room_cards room"
      unfolding room1_def by (rule setHand_refill)
    moreover have "state_of (replenishHands socks roomId (t # ts) room)
        = state_of (replenishHands socks roomId ts room1)"
      using Cards
      by (simp add: Let_def split_beta drawCards_def room1_def n_def newHand_def used_def
          del: replenishHands.simps(1))
    ultimately show ?thesis
      using Cons.IH [of room1] by (auto intro: subset_mset.order_trans)
  qed simp_all
qed

lemma advanceTurn_cards:
  "room_cards (state_of (advanceTurn socks roomId room)) \<subseteq># room_cards room"
proof -
  have "room_cards (state_of (advanceTurn socks roomId room))
      = room_cards (state_of (replenishHands socks roomId (submissions room)
          (room\<lparr>turnProcessed := Some (turn room)\<rparr>)))"
    by (simp add: advanceTurn_def Let_def room_cards_def split: outcome.splits)
  also have "\<dots> \<subseteq># room_cards (room\<lparr>turnProcessed := Some (turn room)\<rparr>)"
    by (rule replenishHands_cards)
  also have "\<dots> = room_cards room"
    by (simp add: room_cards_def)
  finally show ?thesis .
qed

text \<open>
  No handler adds a card to a room: after an event the cards of a room are among those it
  had before, or, for a room the event creates, among those of the shuffle.
\<close>

lemma removePlayerFromRoom_room_cards:
  "room_cards (room\<lparr>players := ps, votedPlayers := vp, readyPlayers := rp, votes := vs,
                    hands := AList.delete n (hands room), submissions := ts\<rparr>)
     \<subseteq># room_cards room"
  by (simp add: room_cards_def hands_cards_delete)

lemma removePlayerFromRoom_cards:
  "cards_of (state_of (removePlayerFromRoom s r n)) roomId \<subseteq># cards_of s roomId"
  by (auto simp: removePlayerFromRoom_def cards_of_def getProperty_def
      removePlayerFromRoom_room_cards split: option.splits)

lemma join_room_cards:
  "cards_of (state_of (join_room s sid r n shuffled)) roomId
     \<subseteq># (case rooms s roomId of None \<Rightarrow> mset shuffled | Some room \<Rightarrow> room_cards room)"
proof (cases "getProperty (rooms s) r")
  case Inherited
  then show ?thesis
    by (simp add: join_room_def removePlayerFromRoom_def cards_of_def split: option.splits)
next
  case Absent
  then have none: "rooms s r = None"
    by (simp add: getProperty_Absent_iff)
  define room0 where "room0 = (createNewRoom shuffled)\<lparr>players := [n]\<rparr>"
  have "room_cards (setHand n ([] @ take 7 (deck room0)) (room0\<lparr>deck := drop 7 (deck room0)\<rparr>))
      \<subseteq># room_cards room0"
    by (rule setHand_refill) simp
  moreover have "room_cards room0 = mset shuffled"
    by (simp add: room0_def room_cards_def createNewRoom_def)
  ultimately show ?thesis
    using Absent none
    by (auto simp: join_room_def removePlayerFromRoom_def createNewRoom_def cards_of_def
        drawCards_def Let_def room0_def split: option.splits)
next
  case (Own room)
  then have some: "rooms s r = Some room"
    by (simp add: getProperty_Own_iff)
  define room1 where "room1 = room\<lparr>players := filter (\<lambda>x. x \<noteq> n) (players room),
      votedPlayers := filter (\<lambda>x. x \<noteq> n) (votedPlayers room),
      readyPlayers := filter (\<lambda>x. x \<noteq> n) (readyPlayers room),
      votes := (votes room)(n := None),
      hands := AList.delete n (hands room),
      submissions := filter (\<lambda>t. sub_playerName t \<noteq> n) (submissions room),
      players := filter (\<lambda>x. x \<noteq> n) (players room) @ [n]\<rparr>"
  have "room_cards (setHand n ([] @ take 7 (deck room1)) (room1\<lparr>deck := drop 7 (deck room1)\<rparr>))
      \<subseteq># room_cards room1"
    by (rule setHand_refill) simp
  also have "room_cards room1 \<subseteq># room_cards room"
    by (simp add: room1_def room_cards_def hands_cards_delete)
  finally show ?thesis
    using Own some
    by (auto simp: join_room_def removePlayerFromRoom_def cards_of_def
        drawCards_def Let_def room1_def split: option.splits)
qed

lemma discard_card_room_cards:
  assumes "getHand room n = Cards playerHand" and "deck room = newCard # rest"
  shows "room_cards (setHand n (filter (\<lambda>x. x \<noteq> c) playerHand @ [newCard])
            (setHand n (filter (\<lambda>x. x \<noteq> c) playerHand) room\<lparr>deck := rest\<rparr>))
           \<subseteq># room_cards room"
proof -
  define kept where "kept = filter (\<lambda>x. x \<noteq> c) playerHand"
  define room1 where "room1 = setHand n kept room"
  have "room_cards (setHand n (kept @ take 0 (deck room)) (room\<lparr>deck := drop 0 (deck room)\<rparr>))
      \<subseteq># room_cards room"
    by (rule setHand_refill) (simp add: assms(1) kept_def)
  then have one: "room_cards room1 \<subseteq># room_cards room"
    by (simp add: room1_def)
  have "room_cards (setHand n (kept @ take 1 (deck room1)) (room1\<lparr>deck := drop 1 (deck room1)\<rparr>))
      \<subseteq># room_cards room1"
    by (rule setHand_refill) (simp add: room1_def)
  moreover have "deck room1 = newCard # rest"
    by (simp add: room1_def assms(2))
  ultimately have "room_cards (setHand n (kept @ [newCard]) (room1\<lparr>deck := rest\<rparr>))
      \<subseteq># room_cards room1"
    by simp
  from this one show ?thesis
    unfolding kept_def room1_def by (rule subset_mset.order_trans)
qed

lemma discard_card_cards:
  "cards_of (state_of (discard_card s sid r n c)) roomId \<subseteq># cards_of s roomId"
proof (cases "getProperty (rooms s) r")
  case (Own room)
  then have some: "rooms s r = Some room"
    by (simp add: getProperty_Own_iff)
  show ?thesis
  proof (cases "getHand room n")
    case (Cards playerHand)
    have "room_cards (setHand n (filter (\<lambda>x. x \<noteq> c) playerHand @ take 0 (deck room))
        (room\<lparr>deck := drop 0 (deck room)\<rparr>)) \<subseteq># room_cards room"
      by (rule setHand_refill) (simp add: Cards)
    then have empty: "room_cards (setHand n (filter (\<lambda>x. x \<noteq> c) playerHand) room)
        \<subseteq># room_cards room"
      by simp
    from Own some Cards empty discard_card_room_cards [OF Cards] show ?thesis
      by (auto simp: discard_card_def cards_of_def Let_def split: list.splits)
  qed (use Own in \<open>simp_all add: discard_card_def\<close>)
qed (simp_all add: discard_card_def)

lemma ready_for_next_turn_cards:
  "cards_of (state_of (ready_for_next_turn s r n)) roomId \<subseteq># cards_of s roomId"
proof (cases "getProperty (rooms s) r")
  case (Own room)
  then have some: "rooms s r = Some room"
    by (simp add: getProperty_Own_iff)
  have "room_cards (state_of (advanceTurn (sockets s) r (room\<lparr>readyPlayers := rp\<rparr>)))
      \<subseteq># room_cards room" for rp
    using advanceTurn_cards [of "sockets s" r "room\<lparr>readyPlayers := rp\<rparr>"]
    by (simp add: room_cards_def)
  moreover have "room_cards (state_of (advanceTurn (sockets s) r room)) \<subseteq># room_cards room"
    by (rule advanceTurn_cards)
  ultimately show ?thesis
    using Own some
    by (auto simp: ready_for_next_turn_def cards_of_def Let_def split_beta room_cards_def
        split: outcome.splits)
qed (simp_all add: ready_for_next_turn_def)

lemma step_cards:
  "cards_of (state_of (step s e)) roomId
     \<subseteq># (case rooms s roomId of
           None \<Rightarrow> (case e of JoinRoom sid r n shuffled \<Rightarrow> mset shuffled | _ \<Rightarrow> {#})
         | Some room \<Rightarrow> room_cards room)"
proof (cases e)
  case (JoinRoom sid r n shuffled)
  then show ?thesis
    using join_room_cards [of s sid r n shuffled roomId] by (simp split: option.splits)
next
  case (DiscardCard sid r n c)
  then show ?thesis
    using discard_card_cards [of s sid r n c roomId]
    by (simp add: cards_of_def split: option.splits)
next
  case (ReadyForNextTurn sid r n)
  then show ?thesis
    using ready_for_next_turn_cards [of s r n roomId]
    by (simp add: cards_of_def split: option.splits)
next
  case (Disconnect sid)
  have "cards_of (state_of (disconnect s sid)) roomId \<subseteq># cards_of s roomId"
    using removePlayerFromRoom_cards [of s _ _ roomId]
    by (auto simp: disconnect_def split: option.splits outcome.splits)
  with Disconnect show ?thesis
    by (cases "disconnect s sid") (simp_all add: cards_of_def split: option.splits)
qed (auto simp: submit_title_def vote_def request_hand_def cards_of_def room_cards_def
      getProperty_def Let_def split: option.splits)

lemma run_cards:
  assumes "list_all (shuffled_from catalog) evs" and "cards_of s roomId \<subseteq># mset catalog"
  shows "cards_of (state_of (run s evs)) roomId \<subseteq># mset catalog"
  using assms
proof (induction evs arbitrary: s)
  case Nil
  then show ?case by simp
next
  case (Cons e evs)
  have "cards_of (state_of (step s e)) roomId \<subseteq># mset catalog"
  proof (cases "rooms s roomId")
    case None
    with step_cards [of s e roomId] Cons.prems(1) show ?thesis
      by (cases e) (simp_all add: shuffled_from_def)
  next
    case (Some room)
    with step_cards [of s e roomId] Cons.prems(2) show ?thesis
      by (auto simp: cards_of_def intro: subset_mset.order_trans)
  qed
  with Cons.IH [of "state_of (step s e)"] Cons.prems(1) show ?case
    by (simp add: state_of_run_Cons del: run.simps(2))
qed

text \<open>
  The accounting of the cards: what a step leaves in a room, and what it discards because
  the deck is exhausted, was in the room before; a room once created stays.
\<close>

lemma step_keeps_room:
  assumes "rooms s roomId = Some room"
  shows "rooms (state_of (step s e)) roomId \<noteq> None"
proof (cases e)
  case (JoinRoom sid r n shuffled)
  with assms show ?thesis
    by (auto simp: join_room_def removePlayerFromRoom_def getProperty_def Let_def drawCards_def
        split: option.splits)
next
  case (DiscardCard sid r n c)
  with assms show ?thesis
    by (auto simp: discard_card_def getProperty_def Let_def
        split: option.splits jsval.splits list.splits)
next
  case (ReadyForNextTurn sid r n)
  with assms show ?thesis
    by (auto simp: ready_for_next_turn_def getProperty_def Let_def split_beta
        split: option.splits outcome.splits)
next
  case (Disconnect sid)
  with assms show ?thesis
    by (auto simp: disconnect_def removePlayerFromRoom_def getProperty_def
        split: option.splits outcome.splits if_splits)
qed (use assms in \<open>auto simp: submit_title_def vote_def request_hand_def getProperty_def Let_def
      split: option.splits\<close>)

lemma length_filter_count: "length (filter (\<lambda>x. x \<noteq> c) h) + count_list h c = length h"
  by (induction h) auto

lemma discard_on_empty_deck_size:
  assumes "getHand room n = Cards h"
  shows "size (room_cards (setHand n (filter (\<lambda>x. x \<noteq> c) h) room)) + count_list h c
           = size (room_cards room)"
proof -
  have "size (room_cards (setHand n (filter (\<lambda>x. x \<noteq> c) h) room) + mset h)
      = size (room_cards room + mset (filter (\<lambda>x. x \<noteq> c) h))"
    using setHand_cards [of n "filter (\<lambda>x. x \<noteq> c) h" room] assms by simp
  then have "size (room_cards (setHand n (filter (\<lambda>x. x \<noteq> c) h) room)) + length h
      = size (room_cards room) + length (filter (\<lambda>x. x \<noteq> c) h)"
    by (simp del: mset_filter)
  with length_filter_count [of c h] show ?thesis
    by linarith
qed

lemma discard_card_accounting:
  assumes "rooms s roomId = Some room"
  shows "size (cards_of (state_of (discard_card s sid r n c)) roomId)
           + discardedOnEmptyDeck s (DiscardCard sid r n c) roomId \<le> size (room_cards room)"
proof (cases "r = roomId \<and> deck room = []")
  case False
  with assms have "discardedOnEmptyDeck s (DiscardCard sid r n c) roomId = 0"
    by (auto simp: discardedOnEmptyDeck_def split: option.splits)
  moreover have "size (cards_of (state_of (discard_card s sid r n c)) roomId)
      \<le> size (cards_of s roomId)"
    by (rule size_mset_mono) (rule discard_card_cards)
  ultimately show ?thesis
    using assms by (simp add: cards_of_def)
next
  case True
  show ?thesis
  proof (cases "getHand room n")
    case (Cards h)
    show ?thesis
    proof (cases "c \<in> set h")
      case False
      then have "count_list h c = 0" by simp
      with assms True Cards False show ?thesis
        by (simp add: discard_card_def discardedOnEmptyDeck_def cards_of_def)
    next
      case in_hand: True
      from discard_on_empty_deck_size [OF Cards, of c] assms True Cards in_hand show ?thesis
        by (simp add: discard_card_def discardedOnEmptyDeck_def cards_of_def Let_def)
    qed
  qed (use assms True in \<open>simp_all add: discard_card_def discardedOnEmptyDeck_def cards_of_def\<close>)
qed

lemma size_cards_le_budget: "size (cards_of s roomId) \<le> budget catalog s roomId"
  by (simp add: cards_of_def budget_def split: option.splits)

lemma step_accounting:
  assumes "shuffled_from catalog e"
  shows "budget catalog (state_of (step s e)) roomId + discardedOnEmptyDeck s e roomId
           \<le> budget catalog s roomId"
proof (cases "rooms s roomId")
  case None
  then have zero: "discardedOnEmptyDeck s e roomId = 0"
    by (auto simp: discardedOnEmptyDeck_def split: event.splits option.splits)
  have "cards_of (state_of (step s e)) roomId \<subseteq># mset catalog"
    using step_cards [of s e roomId] None assms
    by (cases e) (simp_all add: shuffled_from_def)
  then have "size (cards_of (state_of (step s e)) roomId) \<le> length catalog"
    using size_mset_mono by fastforce
  then have "budget catalog (state_of (step s e)) roomId \<le> length catalog"
    by (simp add: budget_def cards_of_def split: option.splits)
  with None zero show ?thesis
    by (simp add: budget_def)
next
  case (Some room)
  from step_keeps_room [OF Some, of e]
  have same: "budget catalog (state_of (step s e)) roomId
      = size (cards_of (state_of (step s e)) roomId)"
    by (auto simp: budget_def cards_of_def)
  have "size (cards_of (state_of (step s e)) roomId) + discardedOnEmptyDeck s e roomId
      \<le> size (room_cards room)"
  proof (cases e)
    case (DiscardCard sid r n c)
    with discard_card_accounting [OF Some, of sid r n c] show ?thesis by simp
  next
    case (Connect sid)
    with Some show ?thesis by (simp add: discardedOnEmptyDeck_def cards_of_def)
  next
    case (JoinRoom sid r n shuffled)
    have "size (cards_of (state_of (step s e)) roomId) \<le> size (room_cards room)"
      using step_cards [of s e roomId] Some by (auto intro: size_mset_mono)
    with JoinRoom show ?thesis by (simp add: discardedOnEmptyDeck_def)
  next
    case (SubmitTitle sid r n title used)
    have "size (cards_of (state_of (step s e)) roomId) \<le> size (room_cards room)"
      using step_cards [of s e roomId] Some by (auto intro: size_mset_mono)
    with SubmitTitle show ?thesis by (simp add: discardedOnEmptyDeck_def)
  next
    case (Vote sid r n target)
    have "size (cards_of (state_of (step s e)) roomId) \<le> size (room_cards room)"
      using step_cards [of s e roomId] Some by (auto intro: size_mset_mono)
    with Vote show ?thesis by (simp add: discardedOnEmptyDeck_def)
  next
    case (RequestHand sid r n)
    have "size (cards_of (state_of (step s e)) roomId) \<le> size (room_cards room)"
      using step_cards [of s e roomId] Some by (auto intro: size_mset_mono)
    with RequestHand show ?thesis by (simp add: discardedOnEmptyDeck_def)
  next
    case (ReadyForNextTurn sid r n)
    have "size (cards_of (state_of (step s e)) roomId) \<le> size (room_cards room)"
      using step_cards [of s e roomId] Some by (auto intro: size_mset_mono)
    with ReadyForNextTurn show ?thesis by (simp add: discardedOnEmptyDeck_def)
  next
    case (Disconnect sid)
    have "size (cards_of (state_of (step s e)) roomId) \<le> size (room_cards room)"
      using step_cards [of s e roomId] Some by (auto intro: size_mset_mono)
    with Disconnect show ?thesis by (simp add: discardedOnEmptyDeck_def)
  qed
  with same Some show ?thesis
    by (simp add: budget_def)
qed

lemma run_accounting:
  assumes "list_all (shuffled_from catalog) evs"
  shows "size (cards_of (state_of (run s evs)) roomId) + exhaustionDiscards s evs roomId
           \<le> budget catalog s roomId"
  using assms
proof (induction evs arbitrary: s)
  case Nil
  then show ?case by (simp add: size_cards_le_budget)
next
  case (Cons e evs)
  from Cons.prems have e: "shuffled_from catalog e" and evs: "list_all (shuffled_from catalog) evs"
    by simp_all
  note step = step_accounting [OF e, of s roomId]
  from step Cons.IH [OF evs, of "state_of (step s e)"] show ?case
    by (simp add: state_of_run_Cons del: run.simps(2))
qed

text \<open>
  Claim C6. For every room, at all times, the multiset union of all hands and the deck
  contains no duplicates beyond those of the catalog, and its size equals the catalog size
  minus the cards discarded without replacement because the deck was exhausted; this holds
  after every operation. The size equation fails: a discard-card call on a deck that is
  not empty takes the card out of the hand and moves one card from the deck to the hand,
  so the room holds one card less although the deck was never exhausted. With sixteen
  cards in the catalog, Alice and Bob in the room and one discard by Alice, the room
  holds fifteen cards.
\<close>

theorem cards_size_counterexample:
  "size (cards_of (state_of (run init (alice_and_bob @ [DiscardCard ''s1'' ''r'' ''Alice'' ''c01''])))
          ''r'') = 15
   \<and> length sample_deck
       - exhaustionDiscards init (alice_and_bob @ [DiscardCard ''s1'' ''r'' ''Alice'' ''c01'']) ''r''
     = 16"
  by (simp add: handler_defs object_defs key_defs reader_defs sample_defs Let_def cards_of_def
      room_cards_def discardedOnEmptyDeck_def)

text \<open>
  Claim C6, amended. For every room, at all times (after every run of operations from the
  start of the server, each room created with a permutation of the catalog), the multiset
  union of all hands and the deck is contained in the catalog, so it has no duplicates
  beyond those of the catalog; its size is at most the catalog size minus the cards
  discarded without replacement because the deck was exhausted; and no operation adds a
  card to the union of a room that exists.
\<close>

theorem cards_stay_within_catalog:
  assumes "list_all (shuffled_from catalog) evs"
    and "rooms (state_of (run init evs)) roomId = Some room"
  shows "room_cards room \<subseteq># mset catalog
     \<and> size (room_cards room) + exhaustionDiscards init evs roomId \<le> length catalog
     \<and> (\<forall>e. cards_of (state_of (step (state_of (run init evs)) e)) roomId \<subseteq># room_cards room)"
proof -
  have "cards_of init roomId \<subseteq># mset catalog"
    by (simp add: cards_of_def init_def)
  with assms(1) have "cards_of (state_of (run init evs)) roomId \<subseteq># mset catalog"
    by (rule run_cards)
  with assms(2) have sub: "room_cards room \<subseteq># mset catalog"
    by (simp add: cards_of_def)
  have "size (cards_of (state_of (run init evs)) roomId) + exhaustionDiscards init evs roomId
      \<le> budget catalog init roomId"
    using assms(1) by (rule run_accounting)
  with assms(2) have acc: "size (room_cards room) + exhaustionDiscards init evs roomId
      \<le> length catalog"
    by (simp add: cards_of_def budget_def init_def)
  have "cards_of (state_of (step (state_of (run init evs)) e)) roomId \<subseteq># room_cards room" for e
    using step_cards [of "state_of (run init evs)" e roomId] assms(2) by simp
  with sub acc show ?thesis
    by simp
qed

text \<open>
  Two inputs: the room of Alice and Bob, and a room over a catalog of seven cards in which
  Alice holds them all and discards one on the empty deck, where the bound is met: six
  cards are left and one was discarded.
\<close>

theorem cards_stay_within_catalog_witness:
  "room_cards lobby_room \<subseteq># mset sample_deck
   \<and> size (room_cards lobby_room) + exhaustionDiscards init alice_and_bob ''r''
       \<le> length sample_deck
   \<and> cards_of (state_of (step (state_of (run init alice_and_bob))
                                 (DiscardCard ''s1'' ''r'' ''Alice'' ''c01'')))
        ''r'' \<subseteq># room_cards lobby_room
   \<and> size (room_cards (lobby_room\<lparr>players := [''Alice''], deck := [],
            hands := [(''Alice'', [''c02'', ''c03'', ''c04'', ''c05'', ''c06'', ''c07''])]\<rparr>))
       + exhaustionDiscards init
           [Connect ''s1'', JoinRoom ''s1'' ''r'' ''Alice'' (take 7 sample_deck),
            DiscardCard ''s1'' ''r'' ''Alice'' ''c01''] ''r''
       \<le> length (take 7 sample_deck)
   \<and> exhaustionDiscards init
           [Connect ''s1'', JoinRoom ''s1'' ''r'' ''Alice'' (take 7 sample_deck),
            DiscardCard ''s1'' ''r'' ''Alice'' ''c01''] ''r'' = 1"
proof -
  have shuffles: "list_all (shuffled_from sample_deck) alice_and_bob"
    by (simp add: alice_and_bob_def shuffled_from_def)
  have room: "rooms (state_of (run init alice_and_bob)) ''r'' = Some lobby_room"
    by (simp add: run_alice_and_bob rooms_lobby)
  have shuffles7: "list_all (shuffled_from (take 7 sample_deck))
      [Connect ''s1'', JoinRoom ''s1'' ''r'' ''Alice'' (take 7 sample_deck),
       DiscardCard ''s1'' ''r'' ''Alice'' ''c01'']"
    by (simp add: shuffled_from_def)
  have room7: "rooms (state_of (run init
      [Connect ''s1'', JoinRoom ''s1'' ''r'' ''Alice'' (take 7 sample_deck),
       DiscardCard ''s1'' ''r'' ''Alice'' ''c01''])) ''r''
      = Some (lobby_room\<lparr>players := [''Alice''], deck := [],
            hands := [(''Alice'', [''c02'', ''c03'', ''c04'', ''c05'', ''c06'', ''c07''])]\<rparr>)"
    by (simp add: handler_defs object_defs key_defs sample_defs Let_def)
  have one: "exhaustionDiscards init
      [Connect ''s1'', JoinRoom ''s1'' ''r'' ''Alice'' (take 7 sample_deck),
       DiscardCard ''s1'' ''r'' ''Alice'' ''c01''] ''r'' = 1"
    by (simp add: handler_defs object_defs key_defs sample_defs Let_def discardedOnEmptyDeck_def)
  from cards_stay_within_catalog [OF shuffles room]
    cards_stay_within_catalog [OF shuffles7 room7] one
  show ?thesis
    by blast
qed

end
